theory Spec2Isabelle
  imports Complex_Main "HOL-Library.Multiset"
begin

section \<open>LivePhotoServer: gallery store, queries, deletes and upload\<close>

text \<open>
  The server keeps no database: a gallery is a directory under the upload root, an asset
  is a \<^verbatim>\<open>*_metadata.json\<close> file beside its two media files, and every request scans
  the directories. The model follows the gallery-aware route handlers (photos, gallery
  and upload router) statement by statement: the file system is an explicit value passed
  in and returned, an exception caught by a handler's \<^verbatim>\<open>try/catch\<close> is the reply
  \<open>ServerError\<close>, and what the platform supplies (random tokens, the clock, date parsing,
  \<^verbatim>\<open>toUpperCase\<close>, \<^verbatim>\<open>path.extname\<close>, the HEIC converter) is a parameter.

  The file system is POSIX and case-sensitive. The model follows the two levels the
  server uses, the upload directory and the gallery directories in it; a request whose
  names would make \<^verbatim>\<open>path.join\<close> leave these two levels has the outcome \<open>Outside\<close>,
  about which the model says nothing.
\<close>

subsection \<open>JavaScript strings\<close>

text \<open>
  Strings are lists of characters. The model is stated for ASCII text, where a character
  is a code unit of the JavaScript string and a byte of a file name alike, so that
  \<^verbatim>\<open>substring\<close>, \<^verbatim>\<open>startsWith\<close> and \<^verbatim>\<open>endsWith\<close> count as the list functions do.
  \<^verbatim>\<open>toUpperCase\<close> follows Unicode (it maps the sharp s to \<^verbatim>\<open>SS\<close>): it is a function
  of the platform, see \<open>runtime\<close> below, and nothing is assumed about it. The upload
  handler lower-cases a file name only to test whether it ends in \<^verbatim>\<open>.heic\<close>; for that
  test the mapping of the ASCII letters is all that matters, see \<open>isHeicName\<close>.
\<close>

definition lowerLetters :: string where
  "lowerLetters = ''abcdefghijklmnopqrstuvwxyz''"

definition upperLetters :: string where
  "upperLetters = ''ABCDEFGHIJKLMNOPQRSTUVWXYZ''"

definition lowerAsciiChar :: "char \<Rightarrow> char" where
  "lowerAsciiChar c =
     (case map_of (zip upperLetters lowerLetters) c of Some l \<Rightarrow> l | None \<Rightarrow> c)"

definition lowerAscii :: "string \<Rightarrow> string" where
  "lowerAscii s = map lowerAsciiChar s"

definition startsWith :: "string \<Rightarrow> string \<Rightarrow> bool" where
  "startsWith s p = (take (length p) s = p)"

definition endsWith :: "string \<Rightarrow> string \<Rightarrow> bool" where
  "endsWith s x = (length x \<le> length s \<and> drop (length s - length x) s = x)"

text \<open>
  \<^verbatim>\<open>name.toLowerCase().endsWith('.heic')\<close>, and also what the regular expression
  \<^verbatim>\<open>/\.heic$/i\<close> matches: the name ends in a dot and the letters h, e, i, c, each in
  either case. No other character lower-cases to text that ends in one of these letters
  (the dotted capital I gives an i followed by a combining dot), and a regular
  expression without the \<^verbatim>\<open>u\<close> flag folds no other character onto an ASCII letter.
\<close>

definition isHeicName :: "string \<Rightarrow> bool" where
  "isHeicName s = endsWith (lowerAscii s) ''.heic''"

text \<open>\<^verbatim>\<open>s.substring(0, 8)\<close>.\<close>

definition substring8 :: "string \<Rightarrow> string" where
  "substring8 s = take 8 s"

text \<open>
  An optional string (\<^verbatim>\<open>string | undefined\<close>) is \<open>string option\<close>. It is truthy
  when it is present and not empty: the handlers test \<^verbatim>\<open>if (!password)\<close>,
  \<^verbatim>\<open>if (metadata.galleryViewPassword)\<close> and \<^verbatim>\<open>a || b\<close> on such values. Query
  parameters, form fields and the password of a JSON body are taken to be strings when
  they are present: a repeated query parameter (an array) or a number as password makes
  the later \<^verbatim>\<open>toUpperCase\<close> call throw, which the model does not follow.
\<close>

fun truthy :: "string option \<Rightarrow> bool" where
  "truthy None = False"
| "truthy (Some s) = (s \<noteq> [])"

text \<open>\<^verbatim>\<open>a || b\<close> on an optional string.\<close>

fun orElse :: "string option \<Rightarrow> string \<Rightarrow> string" where
  "orElse None d = d"
| "orElse (Some s) d = (if s = [] then d else s)"

text \<open>
  A name that \<^verbatim>\<open>path.join(dir, name)\<close> resolves to the entry \<open>name\<close> of \<open>dir\<close> and
  that the file system accepts: not empty, not a dot name, without separator and NUL,
  and at most 255 bytes long.
\<close>

definition plainName :: "string \<Rightarrow> bool" where
  "plainName s =
     (s \<noteq> [] \<and> s \<noteq> ''.'' \<and> s \<noteq> ''..'' \<and> CHR ''/'' \<notin> set s \<and> CHR 0x00 \<notin> set s
      \<and> length s \<le> 255)"

text \<open>
  The outcome of a handler that changes the file system: what it replies and the file
  system it leaves, or \<open>Outside\<close> for a request that leaves the two levels of the model.
\<close>

datatype 'a outcome = Done 'a | Outside

subsection \<open>Records of the storage module\<close>

record LivePhotoMetadata =
  id' :: string
  photoFile :: string
  videoFile :: string
  photoSize :: nat
  videoSize :: nat
  creationDate :: string
  uploadDate :: string
  latitude :: "real option"
  longitude :: "real option"
  photoUrl :: "string option"
  videoUrl :: "string option"
  galleryId :: "string option"
  galleryName :: "string option"
  galleryDeletePassword :: "string option"
  galleryViewPassword :: "string option"

record GalleryInfo =
  info_id :: string
  name :: string
  photoCount :: nat
  lastUpdated :: string

subsection \<open>The platform\<close>

text \<open>
  What the handlers take from Node and from libraries. \<open>uuidv4 k\<close> is the token returned
  by the \<open>k\<close>-th call of \<^verbatim>\<open>uuidv4()\<close> that the handler makes, \<open>isoNow k\<close> the string
  returned by its \<open>k\<close>-th \<^verbatim>\<open>new Date().toISOString()\<close>, \<open>toUpperCase\<close> is the string
  method of that name, \<open>heicConvert\<close> is the HEIC to JPEG conversion of a buffer, where
  \<open>None\<close> stands for the exception it throws, \<open>parseFloat\<close> gives \<open>None\<close> for
  \<^verbatim>\<open>NaN\<close>, \<open>jsonLength m\<close> is the number of bytes of
  \<^verbatim>\<open>JSON.stringify(m, null, 2)\<close> and \<open>dirLength\<close> the size \<^verbatim>\<open>statSync\<close> reports for
  a directory.

  \<open>dateTime s\<close> is \<^verbatim>\<open>new Date(s).getTime()\<close>. Stored dates are taken to be parseable,
  as the dates the server writes are: for a date that does not parse the value is
  \<^verbatim>\<open>NaN\<close>, the comparison function of the two sorts is then not an order, and the
  order of a listing is not determined by this model.
\<close>

record runtime =
  uuidv4 :: "nat \<Rightarrow> string"
  isoNow :: "nat \<Rightarrow> string"
  dateTime :: "string \<Rightarrow> int"
  toUpperCase :: "string \<Rightarrow> string"
  extname :: "string \<Rightarrow> string"
  heicConvert :: "string \<Rightarrow> string option"
  parseFloat :: "string \<Rightarrow> real option"
  jsonLength :: "LivePhotoMetadata \<Rightarrow> nat"
  dirLength :: nat

subsection \<open>The file system under the upload directory\<close>

text \<open>
  An entry of a gallery directory is a regular file, holding the JSON text of an asset
  record or other bytes, or a sub-directory, into which no handler looks. Reading
  anything but a record with \<^verbatim>\<open>readFileSync\<close> and \<^verbatim>\<open>JSON.parse\<close> throws. A directory
  lists its entries in the order \<^verbatim>\<open>readdirSync\<close> returns them. The upload directory
  holds gallery directories and possibly plain files; \<open>None\<close> is an upload directory
  that does not exist.
\<close>

datatype entry = Json LivePhotoMetadata | Blob string | SubDir

type_synonym directory = "(string \<times> entry) list"

datatype node = Dir directory | Plain

type_synonym root = "(string \<times> node) list"

type_synonym store = "root option"

text \<open>\<^verbatim>\<open>JSON.parse(fs.readFileSync(p, 'utf-8')) as LivePhotoMetadata\<close>; \<open>None\<close> when it throws.\<close>

fun readMetadata :: "entry \<Rightarrow> LivePhotoMetadata option" where
  "readMetadata (Json m) = Some m"
| "readMetadata (Blob b) = None"
| "readMetadata SubDir = None"

definition isMetadataFile :: "string \<Rightarrow> bool" where
  "isMetadataFile f = endsWith f ''_metadata.json''"

text \<open>\<^verbatim>\<open>files.filter(f => f.endsWith('_metadata.json'))\<close>\<close>

definition metadataFiles :: "directory \<Rightarrow> directory" where
  "metadataFiles files = filter (\<lambda>e. isMetadataFile (fst e)) files"

text \<open>
  \<^verbatim>\<open>fs.readdirSync(uploadDir).filter(dir => { if (dir === '.temp') return false;
  return fs.statSync(fullPath).isDirectory(); })\<close>
\<close>

fun galleryDirs :: "root \<Rightarrow> (string \<times> directory) list" where
  "galleryDirs [] = []"
| "galleryDirs ((d, Dir files) # r) =
     (if d = ''.temp'' then galleryDirs r else (d, files) # galleryDirs r)"
| "galleryDirs ((d, Plain) # r) = galleryDirs r"

text \<open>The directory holds regular files only.\<close>

definition regularFiles :: "directory \<Rightarrow> bool" where
  "regularFiles files = (SubDir \<notin> set (map snd files))"

subsection \<open>Replies\<close>

text \<open>
  One constructor for each JSON body a handler sends. \<open>Fail status message\<close> is
  \<^verbatim>\<open>res.status(status).json({ error: message })\<close>; \<open>ServerError\<close> is the reply of a
  \<^verbatim>\<open>catch\<close> block, status 500 with the message of the exception.
\<close>

datatype reply =
    Photos "LivePhotoMetadata list" nat
  | Galleries "GalleryInfo list" nat
  | Asset LivePhotoMetadata
  | Deleted string
  | Created string string string string string
  | Fail nat string
  | ServerError


text \<open>
  The reply to a missing view password; its body also has the field
  \<^verbatim>\<open>needsPassword: true\<close>, which no other reply has.
\<close>

abbreviation AuthRequired :: reply where
  "AuthRequired \<equiv> Fail 401 ''Password required''"

subsection \<open>\<^verbatim>\<open>GET /api/photos\<close>: list assets\<close>

text \<open>The spread \<^verbatim>\<open>{ ...metadata, photoUrl: ..., videoUrl: ... }\<close>.\<close>

definition withUrls :: "string \<Rightarrow> LivePhotoMetadata \<Rightarrow> LivePhotoMetadata" where
  "withUrls galleryDir metadata =
     metadata\<lparr> photoUrl := Some (''/files/'' @ galleryDir @ ''/'' @ photoFile metadata),
               videoUrl := Some (''/files/'' @ galleryDir @ ''/'' @ videoFile metadata) \<rparr>"

text \<open>The inner collection loop over one directory; \<open>None\<close> when a record does not parse.\<close>

fun collectFiles :: "string \<Rightarrow> directory \<Rightarrow> LivePhotoMetadata list option" where
  "collectFiles galleryDir [] = Some []"
| "collectFiles galleryDir ((file, c) # files) =
     (if isMetadataFile file then
        (case readMetadata c of
           None \<Rightarrow> None
         | Some metadata \<Rightarrow>
             (case collectFiles galleryDir files of
                None \<Rightarrow> None
              | Some photos \<Rightarrow> Some (withUrls galleryDir metadata # photos)))
      else collectFiles galleryDir files)"

text \<open>The outer loop over the gallery directories.\<close>

fun collectDirs :: "(string \<times> directory) list \<Rightarrow> LivePhotoMetadata list option" where
  "collectDirs [] = Some []"
| "collectDirs ((galleryDir, files) # dirs) =
     (case collectFiles galleryDir files of
        None \<Rightarrow> None
      | Some photos \<Rightarrow>
          (case collectDirs dirs of
             None \<Rightarrow> None
           | Some others \<Rightarrow> Some (photos @ others)))"

text \<open>
  \<^verbatim>\<open>photos.sort((a, b) => new Date(b.uploadDate).getTime() - new Date(a.uploadDate).getTime())\<close>:
  a stable sort, newest first.
\<close>

definition sortPhotos :: "runtime \<Rightarrow> LivePhotoMetadata list \<Rightarrow> LivePhotoMetadata list" where
  "sortPhotos rt photos = sort_key (\<lambda>p. - dateTime rt (uploadDate p)) photos"

text \<open>
  The view-password check on the filtered directory list: \<open>Some r\<close> is the early
  \<^verbatim>\<open>return\<close> of reply \<open>r\<close>, \<open>None\<close> lets the handler go on.
\<close>

fun checkViewPassword ::
  "runtime \<Rightarrow> (string \<times> directory) list \<Rightarrow> string option \<Rightarrow> reply option" where
  "checkViewPassword rt [] providedPassword = None"
| "checkViewPassword rt ((d, files) # dirs) providedPassword =
     (case metadataFiles files of
        [] \<Rightarrow> None
      | (firstMetadata, c) # rest \<Rightarrow>
          (case readMetadata c of
             None \<Rightarrow> Some ServerError
           | Some metadata \<Rightarrow>
               (case galleryViewPassword metadata of
                  None \<Rightarrow> None
                | Some viewPassword \<Rightarrow>
                    if viewPassword = [] then None
                    else (case providedPassword of
                            None \<Rightarrow> Some AuthRequired
                          | Some p \<Rightarrow>
                              if p = [] then Some AuthRequired
                              else if toUpperCase rt p \<noteq> toUpperCase rt viewPassword
                              then Some (Fail 403 ''Invalid password'')
                              else None))))"

definition listAssets :: "runtime \<Rightarrow> store \<Rightarrow> string option \<Rightarrow> string option \<Rightarrow> reply" where
  "listAssets rt st gallery p =
     (case st of
        None \<Rightarrow> Photos [] 0
      | Some uploadDir \<Rightarrow>
          (let allDirs = galleryDirs uploadDir;
               dirs = (if truthy gallery
                       then filter (\<lambda>dir. fst dir = orElse gallery []) allDirs
                       else allDirs);
               early = (if truthy gallery then checkViewPassword rt dirs p else None)
           in case early of
                Some r \<Rightarrow> r
              | None \<Rightarrow>
                  (case collectDirs dirs of
                     None \<Rightarrow> ServerError
                   | Some photos \<Rightarrow>
                       Photos (sortPhotos rt photos) (length (sortPhotos rt photos)))))"

subsection \<open>\<^verbatim>\<open>GET /api/photos/galleries\<close>: list galleries\<close>

text \<open>\<^verbatim>\<open>new Date(0).toISOString()\<close>\<close>

definition epochIso :: string where
  "epochIso = ''1970-01-01T00:00:00.000Z''"

text \<open>The loop that finds the latest upload date; \<open>None\<close> when a record does not parse.\<close>

fun latestUpload :: "runtime \<Rightarrow> string \<Rightarrow> directory \<Rightarrow> string option" where
  "latestUpload rt latest [] = Some latest"
| "latestUpload rt latest ((file, c) # files) =
     (case readMetadata c of
        None \<Rightarrow> None
      | Some meta \<Rightarrow>
          latestUpload rt
            (if dateTime rt (uploadDate meta) > dateTime rt latest
             then uploadDate meta else latest) files)"

text \<open>The body of the loop over gallery directories: the entry pushed for one directory.\<close>

definition galleryEntry :: "runtime \<Rightarrow> string \<Rightarrow> directory \<Rightarrow> GalleryInfo option" where
  "galleryEntry rt galleryDir files =
     (case metadataFiles files of
        [] \<Rightarrow>
          Some \<lparr> info_id = galleryDir, name = galleryDir,
                 photoCount = 0, lastUpdated = epochIso \<rparr>
      | (firstMetadata, c) # rest \<Rightarrow>
          (case readMetadata c of
             None \<Rightarrow> None
           | Some metadata \<Rightarrow>
               (case latestUpload rt epochIso (metadataFiles files) of
                  None \<Rightarrow> None
                | Some latest \<Rightarrow>
                    Some \<lparr> info_id = galleryDir,
                           name = orElse (galleryName metadata) galleryDir,
                           photoCount = length (metadataFiles files),
                           lastUpdated = latest \<rparr>)))"

fun galleryEntries :: "runtime \<Rightarrow> (string \<times> directory) list \<Rightarrow> GalleryInfo list option" where
  "galleryEntries rt [] = Some []"
| "galleryEntries rt ((galleryDir, files) # dirs) =
     (case galleryEntry rt galleryDir files of
        None \<Rightarrow> None
      | Some g \<Rightarrow>
          (case galleryEntries rt dirs of
             None \<Rightarrow> None
           | Some gs \<Rightarrow> Some (g # gs)))"

definition sortGalleries :: "runtime \<Rightarrow> GalleryInfo list \<Rightarrow> GalleryInfo list" where
  "sortGalleries rt galleries = sort_key (\<lambda>g. - dateTime rt (lastUpdated g)) galleries"

definition listGalleries :: "runtime \<Rightarrow> store \<Rightarrow> reply" where
  "listGalleries rt st =
     (case st of
        None \<Rightarrow> Galleries [] 0
      | Some uploadDir \<Rightarrow>
          (case galleryEntries rt (galleryDirs uploadDir) of
             None \<Rightarrow> ServerError
           | Some galleries \<Rightarrow>
               Galleries (sortGalleries rt galleries) (length (sortGalleries rt galleries))))"

subsection \<open>\<^verbatim>\<open>GET /api/photos/:id\<close> and \<^verbatim>\<open>DELETE /api/photos/:id\<close>\<close>

text \<open>
  Both handlers run the same two nested loops and stop at the first record whose id is
  the requested string or starts with it. The search ends in a hit (directory, file name
  and record), in no hit, or in the exception of a record that does not parse.
\<close>

datatype 'a search = Found 'a | Missing | Threw

definition idMatches :: "LivePhotoMetadata \<Rightarrow> string \<Rightarrow> bool" where
  "idMatches metadata i = (id' metadata = i \<or> startsWith (id' metadata) i)"

fun findInFiles :: "string \<Rightarrow> directory \<Rightarrow> (string \<times> LivePhotoMetadata) search" where
  "findInFiles i [] = Missing"
| "findInFiles i ((file, c) # files) =
     (if isMetadataFile file then
        (case readMetadata c of
           None \<Rightarrow> Threw
         | Some metadata \<Rightarrow>
             if idMatches metadata i then Found (file, metadata) else findInFiles i files)
      else findInFiles i files)"

fun findInDirs ::
  "string \<Rightarrow> (string \<times> directory) list \<Rightarrow> (string \<times> string \<times> LivePhotoMetadata) search" where
  "findInDirs i [] = Missing"
| "findInDirs i ((galleryDir, files) # dirs) =
     (case findInFiles i files of
        Found (file, metadata) \<Rightarrow> Found (galleryDir, file, metadata)
      | Threw \<Rightarrow> Threw
      | Missing \<Rightarrow> findInDirs i dirs)"

abbreviation PhotoNotFound :: reply where
  "PhotoNotFound \<equiv> Fail 404 ''Photo not found''"

definition getPhoto :: "store \<Rightarrow> string \<Rightarrow> reply" where
  "getPhoto st i =
     (case st of
        None \<Rightarrow> PhotoNotFound
      | Some uploadDir \<Rightarrow>
          (case findInDirs i (galleryDirs uploadDir) of
             Found (galleryDir, file, metadata) \<Rightarrow> Asset (withUrls galleryDir metadata)
           | Missing \<Rightarrow> PhotoNotFound
           | Threw \<Rightarrow> ServerError))"

text \<open>
  File operations inside one directory, on plain names. \<^verbatim>\<open>existsSync\<close> holds for
  files and sub-directories; \<^verbatim>\<open>unlinkSync\<close> throws, which is \<open>None\<close>, when there is
  no such entry and when the entry is a sub-directory.
\<close>

definition existsSync :: "directory \<Rightarrow> string \<Rightarrow> bool" where
  "existsSync files f = (f \<in> set (map fst files))"

definition removeFile :: "directory \<Rightarrow> string \<Rightarrow> directory" where
  "removeFile files f = filter (\<lambda>e. fst e \<noteq> f) files"

definition unlinkSync :: "directory \<Rightarrow> string \<Rightarrow> directory option" where
  "unlinkSync files f =
     (case map_of files f of
        None \<Rightarrow> None
      | Some SubDir \<Rightarrow> None
      | Some c \<Rightarrow> Some (removeFile files f))"

text \<open>\<^verbatim>\<open>if (fs.existsSync(p)) fs.unlinkSync(p)\<close>\<close>

definition unlinkIfExists :: "directory \<Rightarrow> string \<Rightarrow> directory option" where
  "unlinkIfExists files f = (if existsSync files f then unlinkSync files f else Some files)"

text \<open>Put back the changed listing of gallery directory \<open>d\<close>.\<close>

fun setDir :: "string \<Rightarrow> directory \<Rightarrow> root \<Rightarrow> root" where
  "setDir d files [] = []"
| "setDir d files ((n, Dir old) # r) =
     (if n = d then (n, Dir files) # r else (n, Dir old) # setDir d files r)"
| "setDir d files ((n, Plain) # r) = (n, Plain) # setDir d files r"

fun getDir :: "root \<Rightarrow> string \<Rightarrow> directory option" where
  "getDir [] d = None"
| "getDir ((n, Dir files) # r) d = (if n = d then Some files else getDir r d)"
| "getDir ((n, Plain) # r) d = getDir r d"

text \<open>
  The deletion of the matched asset: both media files if they are there, then the
  record file. The result says whether all three steps went through, and gives the
  listing as far as it was changed when one of them threw.
\<close>

definition deleteFiles :: "directory \<Rightarrow> string \<Rightarrow> LivePhotoMetadata \<Rightarrow> bool \<times> directory" where
  "deleteFiles files file metadata =
     (case unlinkIfExists files (photoFile metadata) of
        None \<Rightarrow> (False, files)
      | Some files1 \<Rightarrow>
          (case unlinkIfExists files1 (videoFile metadata) of
             None \<Rightarrow> (False, files1)
           | Some files2 \<Rightarrow>
               (case unlinkSync files2 file of
                  None \<Rightarrow> (False, files2)
                | Some files3 \<Rightarrow> (True, files3))))"

text \<open>
  The handler. The check for a missing password comes first, before the upload
  directory is looked at. The media files are addressed by
  \<^verbatim>\<open>path.join(dirPath, metadata.photoFile)\<close>: when the record found names a file that
  is not a plain name, the deletion leaves the gallery directory and the outcome is
  \<open>Outside\<close>.
\<close>

definition deletePhoto ::
  "runtime \<Rightarrow> store \<Rightarrow> string option \<Rightarrow> string \<Rightarrow> (reply \<times> store) outcome" where
  "deletePhoto rt st password i =
     (case password of
        None \<Rightarrow> Done (Fail 400 ''Password is required'', st)
      | Some pw \<Rightarrow>
          if pw = [] then Done (Fail 400 ''Password is required'', st)
          else
            (case st of
               None \<Rightarrow> Done (PhotoNotFound, st)
             | Some uploadDir \<Rightarrow>
                 (case findInDirs i (galleryDirs uploadDir) of
                    Missing \<Rightarrow> Done (PhotoNotFound, st)
                  | Threw \<Rightarrow> Done (ServerError, st)
                  | Found (galleryDir, file, metadata) \<Rightarrow>
                      (case galleryDeletePassword metadata of
                         None \<Rightarrow>
                           Done (Fail 403 ''Photo does not have a delete password configured'',
                                 st)
                       | Some deletePassword \<Rightarrow>
                           if deletePassword = [] then
                             Done (Fail 403 ''Photo does not have a delete password configured'',
                                   st)
                           else if toUpperCase rt pw \<noteq> toUpperCase rt deletePassword then
                             Done (Fail 403 ''Invalid password'', st)
                           else if \<not> (plainName (photoFile metadata)
                                       \<and> plainName (videoFile metadata)) then Outside
                           else
                             (case getDir uploadDir galleryDir of
                                None \<Rightarrow> Done (ServerError, st)
                              | Some files \<Rightarrow>
                                  (case deleteFiles files file metadata of
                                     (False, files') \<Rightarrow>
                                       Done (ServerError,
                                             Some (setDir galleryDir files' uploadDir))
                                   | (True, files') \<Rightarrow>
                                       Done (Deleted (id' metadata),
                                             Some (setDir galleryDir files' uploadDir))))))))"

subsection \<open>\<^verbatim>\<open>DELETE /api/gallery/:galleryId\<close>\<close>

text \<open>\<^verbatim>\<open>fs.existsSync(path.join(uploadDir, galleryId))\<close> and what is found there.\<close>

fun lookupNode :: "root \<Rightarrow> string \<Rightarrow> node option" where
  "lookupNode [] d = None"
| "lookupNode ((n, x) # r) d = (if n = d then Some x else lookupNode r d)"

definition galleryNode :: "store \<Rightarrow> string \<Rightarrow> node option" where
  "galleryNode st d = (case st of None \<Rightarrow> None | Some uploadDir \<Rightarrow> lookupNode uploadDir d)"

text \<open>
  The loop \<^verbatim>\<open>for (const file of files) fs.unlinkSync(...)\<close>: it removes the entries in
  directory order and throws at the first sub-directory. The result says whether the
  loop went through and gives the entries that are left.
\<close>

fun unlinkAll :: "directory \<Rightarrow> bool \<times> directory" where
  "unlinkAll [] = (True, [])"
| "unlinkAll ((f, c) # files) =
     (if c = SubDir then (False, (f, c) # files) else unlinkAll files)"

text \<open>\<^verbatim>\<open>rmdirSync\<close> of the emptied directory: the entry leaves the upload directory.\<close>

definition rmdirSync :: "root \<Rightarrow> string \<Rightarrow> root" where
  "rmdirSync uploadDir d = filter (\<lambda>e. fst e \<noteq> d) uploadDir"

text \<open>
  The handler. The check for a missing password comes first. The gallery id is a route
  parameter, joined to the upload directory: an id that is not a plain name (it can
  hold an encoded separator) has the outcome \<open>Outside\<close>.
\<close>

definition deleteGallery ::
  "runtime \<Rightarrow> store \<Rightarrow> string option \<Rightarrow> string \<Rightarrow> (reply \<times> store) outcome" where
  "deleteGallery rt st password galleryId' =
     (case password of
        None \<Rightarrow> Done (Fail 400 ''Password is required'', st)
      | Some pw \<Rightarrow>
          if pw = [] then Done (Fail 400 ''Password is required'', st)
          else if \<not> plainName galleryId' then Outside
          else
            (case galleryNode st galleryId' of
               None \<Rightarrow> Done (Fail 404 ''Gallery not found'', st)
             | Some Plain \<Rightarrow> Done (ServerError, st)
             | Some (Dir files) \<Rightarrow>
                 (case metadataFiles files of
                    [] \<Rightarrow> Done (Fail 404 ''Gallery has no photos'', st)
                  | (firstMetadata, c) # rest \<Rightarrow>
                      (case readMetadata c of
                         None \<Rightarrow> Done (ServerError, st)
                       | Some metadata \<Rightarrow>
                           (case galleryDeletePassword metadata of
                              None \<Rightarrow>
                                Done (Fail 403
                                        ''Gallery does not have a delete password configured'',
                                      st)
                            | Some deletePassword \<Rightarrow>
                                if deletePassword = [] then
                                  Done (Fail 403
                                          ''Gallery does not have a delete password configured'',
                                        st)
                                else if toUpperCase rt pw \<noteq> toUpperCase rt deletePassword then
                                  Done (Fail 403 ''Invalid password'', st)
                                else
                                  (case unlinkAll files of
                                     (False, left) \<Rightarrow>
                                       Done (ServerError,
                                             map_option (setDir galleryId' left) st)
                                   | (True, left) \<Rightarrow>
                                       Done (Deleted galleryId',
                                             map_option
                                               (\<lambda>uploadDir. rmdirSync uploadDir galleryId')
                                               st)))))))"

subsection \<open>\<^verbatim>\<open>POST /api/upload\<close>\<close>

text \<open>
  The handler that takes the gallery from the form fields. Before it runs,
  \<^verbatim>\<open>multer\<close> has checked content type and size of the parts and has stored each file
  part in the temporary directory \<^verbatim>\<open>.temp\<close> of the upload directory, which it creates;
  the handler moves the two files into the gallery directory. The model is the handler:
  the temporary files are in the store it starts from, \<open>path\<close> is the name of the
  temporary file inside \<^verbatim>\<open>.temp\<close> and \<open>size'\<close> the size \<^verbatim>\<open>multer\<close> recorded. The
  files of a request are \<open>None\<close> when the request was not a multipart form, so that
  \<^verbatim>\<open>req.files\<close> is undefined.
\<close>

record MulterFile =
  originalname :: string
  path :: string
  size' :: nat

record UploadBody =
  req_id :: "string option"
  gallery_id :: "string option"
  gallery_name :: "string option"
  creation_date :: "string option"
  req_latitude :: "string option"
  req_longitude :: "string option"

definition tempDir :: string where
  "tempDir = ''.temp''"

text \<open>
  \<^verbatim>\<open>writeFileSync\<close> on a plain name: it replaces a file of that name or adds the
  entry, and throws, which is \<open>None\<close>, when the name is that of a sub-directory.
\<close>

definition putFile :: "directory \<Rightarrow> string \<Rightarrow> entry \<Rightarrow> directory" where
  "putFile files f c =
     (if existsSync files f then map (\<lambda>e. if fst e = f then (f, c) else e) files
      else files @ [(f, c)])"

definition writeFileSync :: "directory \<Rightarrow> string \<Rightarrow> entry \<Rightarrow> directory option" where
  "writeFileSync files f c =
     (case map_of files f of
        Some SubDir \<Rightarrow> None
      | _ \<Rightarrow> Some (putFile files f c))"

text \<open>The listing of directory \<open>d\<close> of the upload directory, if \<open>d\<close> is a directory.\<close>

definition lookupDir :: "root \<Rightarrow> string \<Rightarrow> directory option" where
  "lookupDir r d = (case lookupNode r d of Some (Dir files) \<Rightarrow> Some files | _ \<Rightarrow> None)"

text \<open>
  \<^verbatim>\<open>renameSync\<close> from one directory of the upload directory to a name in another,
  both given as directory and plain name. It throws, which is \<open>None\<close>, when the source
  is not there, when the target directory is not a directory and when the target name
  is that of a sub-directory; a file under the target name is replaced. Moving a
  sub-directory depends on what it holds and is \<open>Outside\<close>.
\<close>

definition renameSync ::
  "root \<Rightarrow> string \<times> string \<Rightarrow> string \<times> string \<Rightarrow> root option outcome" where
  "renameSync r src dst =
     (case lookupDir r (fst src) of
        None \<Rightarrow> Done None
      | Some srcFiles \<Rightarrow>
          (case map_of srcFiles (snd src) of
             None \<Rightarrow> Done None
           | Some SubDir \<Rightarrow> Outside
           | Some c \<Rightarrow>
               if src = dst then Done (Some r)
               else
                 (let r1 = setDir (fst src) (removeFile srcFiles (snd src)) r
                  in case lookupDir r1 (fst dst) of
                       None \<Rightarrow> Done None
                     | Some dstFiles \<Rightarrow>
                         (case writeFileSync dstFiles (snd dst) c of
                            None \<Rightarrow> Done None
                          | Some dstFiles' \<Rightarrow> Done (Some (setDir (fst dst) dstFiles' r1))))))"

text \<open>\<^verbatim>\<open>fs.statSync(p).size\<close>; \<open>None\<close> when there is no such entry.\<close>

definition statSize :: "runtime \<Rightarrow> directory \<Rightarrow> string \<Rightarrow> nat option" where
  "statSize rt files f =
     (case map_of files f of
        None \<Rightarrow> None
      | Some (Blob b) \<Rightarrow> Some (length b)
      | Some (Json m) \<Rightarrow> Some (jsonLength rt m)
      | Some SubDir \<Rightarrow> Some (dirLength rt))"

text \<open>\<^verbatim>\<open>heicPath.replace(/\.heic$/i, '.jpg')\<close>\<close>

definition replaceHeic :: "string \<Rightarrow> string" where
  "replaceHeic heicPath =
     (if isHeicName heicPath
      then take (length heicPath - 5) heicPath @ ''.jpg'' else heicPath)"

text \<open>
  \<^verbatim>\<open>convertHeicToJpeg\<close> inside the gallery directory: the path of the JPEG, or \<open>None\<close>
  for an exception, with the listing as it is at that point. The converter gets the
  bytes of the file; a file that holds the JSON text of a record is not HEIC data.
\<close>

definition convertHeicToJpeg :: "runtime \<Rightarrow> directory \<Rightarrow> string \<Rightarrow> string option \<times> directory" where
  "convertHeicToJpeg rt files heicPath =
     (case map_of files heicPath of
        Some (Blob inputBuffer) \<Rightarrow>
          (case heicConvert rt inputBuffer of
             None \<Rightarrow> (None, files)
           | Some outputBuffer \<Rightarrow>
               (case writeFileSync files (replaceHeic heicPath) (Blob outputBuffer) of
                  None \<Rightarrow> (None, files)
                | Some files1 \<Rightarrow>
                    (case unlinkSync files1 heicPath of
                       None \<Rightarrow> (None, files1)
                     | Some files2 \<Rightarrow> (Some (replaceHeic heicPath), files2))))
      | _ \<Rightarrow> (None, files))"

text \<open>
  \<^verbatim>\<open>(req.body.id as string)?.substring(0, 8) || uuidv4().substring(0, 8)\<close>: the first
  call of \<^verbatim>\<open>uuidv4\<close>, made only when no id came with the request.
\<close>

definition assetId :: "runtime \<Rightarrow> UploadBody \<Rightarrow> string" where
  "assetId rt body = orElse (map_option substring8 (req_id body)) (substring8 (uuidv4 rt 0))"

text \<open>
  \<^verbatim>\<open>id: req.body.id || uuidv4()\<close> in the record: when no id came with the request this
  is the second call of \<^verbatim>\<open>uuidv4\<close>.
\<close>

definition metadataId :: "runtime \<Rightarrow> UploadBody \<Rightarrow> string" where
  "metadataId rt body = orElse (req_id body) (uuidv4 rt 1)"

text \<open>\<^verbatim>\<open>`${assetId}_photo${photoExt}`\<close>, the name the photo is first stored under.\<close>

definition photoName :: "runtime \<Rightarrow> UploadBody \<Rightarrow> MulterFile \<Rightarrow> string" where
  "photoName rt body photo = assetId rt body @ ''_photo'' @ extname rt (originalname photo)"

definition videoName :: "runtime \<Rightarrow> UploadBody \<Rightarrow> MulterFile \<Rightarrow> string" where
  "videoName rt body video = assetId rt body @ ''_video'' @ extname rt (originalname video)"

definition metadataName :: "runtime \<Rightarrow> UploadBody \<Rightarrow> string" where
  "metadataName rt body = assetId rt body @ ''_metadata.json''"

text \<open>
  The HEIC branch: final file name, final size and the listing afterwards. A failed
  conversion is caught and leaves the name and the size as they were; the assignments
  made before the exception stay.
\<close>

definition convertStep ::
  "runtime \<Rightarrow> directory \<Rightarrow> string \<Rightarrow> nat \<Rightarrow> string \<times> nat \<times> directory" where
  "convertStep rt files finalPhotoFilename finalPhotoSize =
     (if isHeicName finalPhotoFilename then
        (case convertHeicToJpeg rt files finalPhotoFilename of
           (None, files') \<Rightarrow> (finalPhotoFilename, finalPhotoSize, files')
         | (Some jpegPath, files') \<Rightarrow>
             (case statSize rt files' jpegPath of
                None \<Rightarrow> (jpegPath, finalPhotoSize, files')
              | Some n \<Rightarrow> (jpegPath, n, files')))
      else (finalPhotoFilename, finalPhotoSize, files))"

text \<open>\<^verbatim>\<open>if (!fs.existsSync(galleryPath)) fs.mkdirSync(galleryPath, { recursive: true })\<close>\<close>

definition mkdirGallery :: "store \<Rightarrow> string \<Rightarrow> root" where
  "mkdirGallery st g =
     (case st of
        None \<Rightarrow> [(g, Dir [])]
      | Some uploadDir \<Rightarrow>
          (case lookupNode uploadDir g of
             None \<Rightarrow> uploadDir @ [(g, Dir [])]
           | Some x \<Rightarrow> uploadDir))"

definition buildMetadata ::
  "runtime \<Rightarrow> UploadBody \<Rightarrow> MulterFile \<Rightarrow> string \<Rightarrow> nat \<Rightarrow> string \<Rightarrow> LivePhotoMetadata" where
  "buildMetadata rt body video finalPhotoFilename finalPhotoSize finalVideoFilename =
     \<lparr> id' = metadataId rt body,
       photoFile = finalPhotoFilename,
       videoFile = finalVideoFilename,
       photoSize = finalPhotoSize,
       videoSize = size' video,
       creationDate = orElse (creation_date body) (isoNow rt 0),
       uploadDate = isoNow rt (if truthy (creation_date body) then 0 else 1),
       latitude = (case req_latitude body of
                     None \<Rightarrow> None
                   | Some x \<Rightarrow> if x = [] then None else parseFloat rt x),
       longitude = (case req_longitude body of
                      None \<Rightarrow> None
                    | Some x \<Rightarrow> if x = [] then None else parseFloat rt x),
       photoUrl = None,
       videoUrl = None,
       galleryId = Some (orElse (gallery_id body) ''default''),
       galleryName = Some (orElse (gallery_name body) ''Default Gallery''),
       galleryDeletePassword = None,
       galleryViewPassword = None \<rparr>"

text \<open>
  The requests the model follows: the gallery id, the three names the files are stored
  under and the names of the two temporary files are plain names. With a separator in
  the id or in the gallery id \<^verbatim>\<open>path.join\<close> resolves to another directory. The name
  of the converted photo is then a plain name as well.
\<close>

definition insideModel :: "runtime \<Rightarrow> UploadBody \<Rightarrow> MulterFile \<Rightarrow> MulterFile \<Rightarrow> bool" where
  "insideModel rt body photo video =
     (plainName (orElse (gallery_id body) ''default'')
      \<and> plainName (photoName rt body photo)
      \<and> plainName (videoName rt body video)
      \<and> plainName (metadataName rt body)
      \<and> plainName (path photo) \<and> plainName (path video))"

text \<open>
  The handler. Every exception ends in the \<^verbatim>\<open>catch\<close> block, with the file system as
  the statements before it left it.
\<close>

definition upload ::
  "runtime \<Rightarrow> store \<Rightarrow> (MulterFile option \<times> MulterFile option) option \<Rightarrow> UploadBody
     \<Rightarrow> (reply \<times> store) outcome" where
  "upload rt st files body =
     (case files of
        None \<Rightarrow> Done (ServerError, st)
      | Some (None, video) \<Rightarrow> Done (Fail 400 ''Both photo and video files are required'', st)
      | Some (Some photoFile', None) \<Rightarrow>
          Done (Fail 400 ''Both photo and video files are required'', st)
      | Some (Some photoFile', Some videoFile') \<Rightarrow>
          if \<not> insideModel rt body photoFile' videoFile' then Outside
          else
          (let g = orElse (gallery_id body) ''default'';
               uploadDir = mkdirGallery st g
           in case renameSync uploadDir (tempDir, path photoFile')
                     (g, photoName rt body photoFile') of
                Outside \<Rightarrow> Outside
              | Done None \<Rightarrow> Done (ServerError, Some uploadDir)
              | Done (Some r1) \<Rightarrow>
                  (case lookupDir r1 g of
                     None \<Rightarrow> Done (ServerError, Some r1)
                   | Some files1 \<Rightarrow>
                  (case statSize rt files1 (photoName rt body photoFile') of
                     None \<Rightarrow> Done (ServerError, Some r1)
                   | Some size0 \<Rightarrow>
                  (case convertStep rt files1 (photoName rt body photoFile') size0 of
                     (finalPhotoFilename, finalPhotoSize, files2) \<Rightarrow>
                  (case renameSync (setDir g files2 r1) (tempDir, path videoFile')
                          (g, videoName rt body videoFile') of
                     Outside \<Rightarrow> Outside
                   | Done None \<Rightarrow> Done (ServerError, Some (setDir g files2 r1))
                   | Done (Some r3) \<Rightarrow>
                  (case lookupDir r3 g of
                     None \<Rightarrow> Done (ServerError, Some r3)
                   | Some files3 \<Rightarrow>
                  (let metadata = buildMetadata rt body videoFile' finalPhotoFilename
                                    finalPhotoSize (videoName rt body videoFile')
                   in case writeFileSync files3 (metadataName rt body) (Json metadata) of
                        None \<Rightarrow> Done (ServerError, Some r3)
                      | Some files4 \<Rightarrow>
                          Done (Created (id' metadata) g
                                  (''/files/'' @ g @ ''/'' @ finalPhotoFilename)
                                  (''/files/'' @ g @ ''/'' @ videoName rt body videoFile')
                                  (''/files/'' @ g @ ''/'' @ metadataName rt body),
                                Some (setDir g files4 r3))))))))))"

subsection \<open>A platform and a store to run the handlers on\<close>

text \<open>
  \<^verbatim>\<open>path.extname\<close> of Node on POSIX: the part of the last path component from its last
  dot on; empty when there is no dot, when the only dot starts the component, and for
  the component \<^verbatim>\<open>..\<close>.
\<close>

definition posixExtname :: "string \<Rightarrow> string" where
  "posixExtname p =
     (let trimmed = rev (dropWhile (\<lambda>c. c = CHR ''/'') (rev p));
          base = rev (takeWhile (\<lambda>c. c \<noteq> CHR ''/'') (rev trimmed));
          ext = CHR ''.'' # rev (takeWhile (\<lambda>c. c \<noteq> CHR ''.'') (rev base))
      in if CHR ''.'' \<notin> set base \<or> length ext = length base \<or> base = ''..'' then [] else ext)"

text \<open>
  \<^verbatim>\<open>toUpperCase\<close> as it acts on ASCII text, for the sample platform: the samples use
  ASCII passwords only.
\<close>

definition upperAsciiChar :: "char \<Rightarrow> char" where
  "upperAsciiChar c =
     (case map_of (zip lowerLetters upperLetters) c of Some u \<Rightarrow> u | None \<Rightarrow> c)"

definition upperAscii :: "string \<Rightarrow> string" where
  "upperAscii s = map upperAsciiChar s"

definition sampleTimes :: "(string \<times> int) list" where
  "sampleTimes =
     [(''1970-01-01T00:00:00.000Z'', 0),
      (''2024-05-01T10:00:00.000Z'', 1714557600000),
      (''2024-05-02T10:00:00.000Z'', 1714644000000),
      (''2024-05-03T10:00:00.000Z'', 1714730400000)]"

definition sampleRuntime :: runtime where
  "sampleRuntime =
     \<lparr> uuidv4 = (\<lambda>k. if k = 0 then ''1b4e28ba-2fa1-41d2-883f-0016d3cca427''
                     else ''6fa459ea-ee8a-4ca4-894e-db77e160355e''),
       isoNow = (\<lambda>k. ''2024-05-03T10:00:00.000Z''),
       dateTime = (\<lambda>s. case map_of sampleTimes s of Some t \<Rightarrow> t | None \<Rightarrow> 0),
       toUpperCase = upperAscii,
       extname = posixExtname,
       heicConvert = (\<lambda>b. if b = ''heic-bytes'' then Some ''jpeg-bytes-92'' else None),
       parseFloat = (\<lambda>s. None),
       jsonLength = (\<lambda>m. 400),
       dirLength = 4096 \<rparr>"

definition sampleAsset ::
  "string \<Rightarrow> string \<Rightarrow> string \<Rightarrow> string option \<Rightarrow> string option \<Rightarrow> LivePhotoMetadata" where
  "sampleAsset i g d deletePassword viewPassword =
     \<lparr> id' = i,
       photoFile = substring8 i @ ''_photo.jpg'',
       videoFile = substring8 i @ ''_video.mov'',
       photoSize = 3, videoSize = 5,
       creationDate = d, uploadDate = d,
       latitude = None, longitude = None,
       photoUrl = None, videoUrl = None,
       galleryId = Some g, galleryName = Some g,
       galleryDeletePassword = deletePassword,
       galleryViewPassword = viewPassword \<rparr>"

definition tripFirst :: LivePhotoMetadata where
  "tripFirst = sampleAsset ''aaaa1111-0001'' ''trip'' ''2024-05-01T10:00:00.000Z''
                 (Some ''Secret'') (Some ''ABC123'')"

definition tripSecond :: LivePhotoMetadata where
  "tripSecond = sampleAsset ''aaaa2222-0002'' ''trip'' ''2024-05-02T10:00:00.000Z''
                  (Some ''Other'') (Some ''ABC123'')"

definition openOnly :: LivePhotoMetadata where
  "openOnly = sampleAsset ''bbbb3333-0003'' ''open'' ''2024-05-01T10:00:00.000Z'' None None"

definition tripDir :: directory where
  "tripDir =
     [(''aaaa1111_photo.jpg'', Blob ''jpg''),
      (''aaaa1111_video.mov'', Blob ''movie''),
      (''aaaa1111_metadata.json'', Json tripFirst),
      (''aaaa2222_photo.jpg'', Blob ''jpg''),
      (''aaaa2222_video.mov'', Blob ''movie''),
      (''aaaa2222_metadata.json'', Json tripSecond)]"

definition openDir :: directory where
  "openDir =
     [(''bbbb3333_metadata.json'', Json openOnly),
      (''bbbb3333_photo.jpg'', Blob ''jpg''),
      (''bbbb3333_video.mov'', Blob ''movie'')]"

definition sampleRoot :: root where
  "sampleRoot =
     [(''.temp'', Dir []),
      (''trip'', Dir tripDir),
      (''notes.txt'', Plain),
      (''open'', Dir openDir),
      (''empty'', Dir [])]"

text \<open>A gallery directory that holds a sub-directory.\<close>

definition albumOnly :: LivePhotoMetadata where
  "albumOnly = sampleAsset ''cccc4444-0004'' ''album'' ''2024-05-01T10:00:00.000Z''
                 (Some ''Secret'') None"

definition albumDir :: directory where
  "albumDir =
     [(''cccc4444_metadata.json'', Json albumOnly),
      (''thumbs'', SubDir),
      (''cccc4444_photo.jpg'', Blob ''jpg'')]"

definition albumRoot :: root where
  "albumRoot = [(''album'', Dir albumDir)]"

text \<open>Requests to upload, and the store with their files in the temporary directory.\<close>

definition noFields :: UploadBody where
  "noFields =
     \<lparr> req_id = None, gallery_id = None, gallery_name = None, creation_date = None,
       req_latitude = None, req_longitude = None \<rparr>"

definition heicPhoto :: MulterFile where
  "heicPhoto = \<lparr> originalname = ''IMG_0001.HEIC'', path = ''t1_photo.HEIC'', size' = 10 \<rparr>"

definition brokenPhoto :: MulterFile where
  "brokenPhoto = \<lparr> originalname = ''IMG_0002.heic'', path = ''t2_photo.heic'', size' = 10 \<rparr>"

definition jpegPhoto :: MulterFile where
  "jpegPhoto = \<lparr> originalname = ''IMG_0003.JPG'', path = ''t3_photo.JPG'', size' = 3 \<rparr>"

definition movVideo :: MulterFile where
  "movVideo = \<lparr> originalname = ''IMG_0001.MOV'', path = ''t4_video.MOV'', size' = 5 \<rparr>"

definition stagedFiles :: directory where
  "stagedFiles =
     [(''t1_photo.HEIC'', Blob ''heic-bytes''),
      (''t2_photo.heic'', Blob ''not-a-heic''),
      (''t3_photo.JPG'', Blob ''jpg''),
      (''t4_video.MOV'', Blob ''movie'')]"

definition stagedRoot :: root where
  "stagedRoot =
     [(''.temp'', Dir stagedFiles),
      (''trip'', Dir tripDir),
      (''notes.txt'', Plain)]"

subsection \<open>The stored records, as the claims speak of them\<close>

text \<open>
  The asset records of a gallery directory are what its \<^verbatim>\<open>*_metadata.json\<close> files
  hold, in directory order. A directory is parseable when each of these files holds a
  record, and an upload directory is well formed when every gallery directory is: the
  server itself writes a record file in one \<^verbatim>\<open>writeFileSync\<close> of valid JSON.
\<close>

definition assetRecords :: "directory \<Rightarrow> LivePhotoMetadata list" where
  "assetRecords files = List.map_filter (\<lambda>e. readMetadata (snd e)) (metadataFiles files)"

definition parseable :: "directory \<Rightarrow> bool" where
  "parseable files = list_all (\<lambda>e. readMetadata (snd e) \<noteq> None) (metadataFiles files)"

definition wellFormed :: "root \<Rightarrow> bool" where
  "wellFormed r = list_all (\<lambda>d. parseable (snd d)) (galleryDirs r)"

text \<open>Every stored record with the directory it lies in, in scan order.\<close>

definition recordsOf :: "(string \<times> directory) list \<Rightarrow> (string \<times> LivePhotoMetadata) list" where
  "recordsOf dirs = concat (map (\<lambda>d. map (Pair (fst d)) (assetRecords (snd d))) dirs)"

definition storedRecords :: "root \<Rightarrow> (string \<times> LivePhotoMetadata) list" where
  "storedRecords r = recordsOf (galleryDirs r)"

text \<open>Every record file of the directory holds a record whose view password is \<open>pw\<close>.\<close>

definition viewProtected :: "string \<Rightarrow> directory \<Rightarrow> bool" where
  "viewProtected pw files =
     list_all (\<lambda>e. map_option galleryViewPassword (readMetadata (snd e)) = Some (Some pw))
       (metadataFiles files)"

text \<open>
  The listing of a gallery directory of a store, empty when there is no such directory,
  and the condition that the gallery path is not taken by a plain file.
\<close>

definition dirOf :: "store \<Rightarrow> string \<Rightarrow> directory" where
  "dirOf st g = (case galleryNode st g of Some (Dir files) \<Rightarrow> files | _ \<Rightarrow> [])"

definition galleryUsable :: "store \<Rightarrow> string \<Rightarrow> bool" where
  "galleryUsable st g = (case galleryNode st g of Some Plain \<Rightarrow> False | _ \<Rightarrow> True)"

section \<open>Properties\<close>

lemmas str_defs = upperAscii_def upperAsciiChar_def lowerAscii_def lowerAsciiChar_def
  isHeicName_def lowerLetters_def upperLetters_def endsWith_def startsWith_def
  isMetadataFile_def substring8_def

lemmas sample_defs = sampleRoot_def tripDir_def openDir_def tripFirst_def tripSecond_def
  openOnly_def sampleAsset_def

lemmas run_defs = sampleRuntime_def sampleTimes_def sortPhotos_def withUrls_def

lemma sample_toUpperCase: "toUpperCase sampleRuntime = upperAscii"
  by (simp add: sampleRuntime_def)

subsection \<open>Deleting one asset\<close>

text \<open>
  Claim C2. When the request carries a password and the scan stops at a record that has
  no delete password (none, or the empty string), \<^verbatim>\<open>DELETE /api/photos/:id\<close> answers
  403 and leaves the whole store, so the record and its media files, as it was.
\<close>

theorem delete_photo_without_delete_password:
  assumes "truthy password"
      and "findInDirs i (galleryDirs uploadDir) = Found (g, file, metadata)"
      and "\<not> truthy (galleryDeletePassword metadata)"
  shows "deletePhoto rt (Some uploadDir) password i =
           Done (Fail 403 ''Photo does not have a delete password configured'', Some uploadDir)"
  using assms
  by (cases password; cases "galleryDeletePassword metadata") (simp_all add: deletePhoto_def)

text \<open>The asset of gallery \<open>open\<close> has no delete password: any password is refused.\<close>

theorem delete_photo_without_delete_password_witness:
  "truthy (Some ''anything'')
   \<and> findInDirs ''bbbb'' (galleryDirs sampleRoot) =
         Found (''open'', ''bbbb3333_metadata.json'', openOnly)
   \<and> \<not> truthy (galleryDeletePassword openOnly)
   \<and> deletePhoto sampleRuntime (Some sampleRoot) (Some ''anything'') ''bbbb'' =
         Done (Fail 403 ''Photo does not have a delete password configured'', Some sampleRoot)"
proof -
  have h1: "truthy (Some ''anything'')" by simp
  have h2: "findInDirs ''bbbb'' (galleryDirs sampleRoot) =
              Found (''open'', ''bbbb3333_metadata.json'', openOnly)"
    by (simp add: sample_defs str_defs idMatches_def)
  have h3: "\<not> truthy (galleryDeletePassword openOnly)"
    by (simp add: openOnly_def sampleAsset_def)
  from delete_photo_without_delete_password [OF h1 h2 h3] h1 h2 h3 show ?thesis by simp
qed

subsection \<open>Deleting a gallery\<close>

lemma lookupNode_rmdirSync_same: "lookupNode (rmdirSync r g) g = None"
  by (induction r) (auto simp: rmdirSync_def)


lemma galleryNode_rmdir_same: "galleryNode (map_option (\<lambda>r. rmdirSync r g) st) g = None"
  by (cases st) (simp_all add: galleryNode_def lookupNode_rmdirSync_same)




text \<open>The loop over the files goes through exactly when there is no sub-directory.\<close>

lemma unlinkAll_regular:
  "unlinkAll files = (regularFiles files, dropWhile (\<lambda>e. snd e \<noteq> SubDir) files)"
  by (induction files) (auto simp: regularFiles_def)

lemma unlinkAll_regular_empty: "regularFiles files \<Longrightarrow> unlinkAll files = (True, [])"
  by (induction files) (auto simp: regularFiles_def)




text \<open>
  Claim C10. \<^verbatim>\<open>DELETE /api/gallery/:galleryId\<close> compares the password with the delete
  password of the first record file of the directory and with nothing else, both
  passed through \<^verbatim>\<open>toUpperCase\<close>; the password of the request body is a string and
  the gallery id a plain name. Whatever the other files hold, a mismatch answers
  403; a match deletes the whole directory when it holds regular files only, and when it
  holds a sub-directory the handler answers 500 after it has removed the files listed
  before the first sub-directory.
\<close>

theorem delete_gallery_first_record_decides:
  assumes "plainName g" and "galleryNode st g = Some (Dir files)"
      and "metadataFiles files = (f, Json m) # rest"
      and "password = Some pw" and "pw \<noteq> []"
      and "galleryDeletePassword m = Some dp" and "dp \<noteq> []"
  shows "deleteGallery rt st password g =
           (if toUpperCase rt pw \<noteq> toUpperCase rt dp
            then Done (Fail 403 ''Invalid password'', st)
            else if regularFiles files
            then Done (Deleted g, map_option (\<lambda>r. rmdirSync r g) st)
            else Done (ServerError,
                       map_option (setDir g (dropWhile (\<lambda>e. snd e \<noteq> SubDir) files)) st))
         \<and> galleryNode (map_option (\<lambda>r. rmdirSync r g) st) g = None"
  using assms by (simp add: deleteGallery_def galleryNode_rmdir_same unlinkAll_regular)

text \<open>
  In gallery \<open>trip\<close> the first record has delete password \<open>Secret\<close> and the second
  \<open>Other\<close>: \<open>secret\<close> deletes both assets, \<open>other\<close> is refused. Gallery \<open>album\<close> holds
  a sub-directory: the record file listed before it is removed, the rest stays.
\<close>

theorem delete_gallery_first_record_decides_witness:
  "plainName ''trip'' \<and> plainName ''album''
   \<and> galleryNode (Some sampleRoot) ''trip'' = Some (Dir tripDir)
   \<and> metadataFiles tripDir =
       [(''aaaa1111_metadata.json'', Json tripFirst), (''aaaa2222_metadata.json'', Json tripSecond)]
   \<and> galleryDeletePassword tripFirst = Some ''Secret''
   \<and> galleryDeletePassword tripSecond = Some ''Other''
   \<and> deleteGallery sampleRuntime (Some sampleRoot) (Some ''secret'') ''trip'' =
       Done (Deleted ''trip'',
             Some [(''.temp'', Dir []), (''notes.txt'', Plain),
                   (''open'', Dir openDir), (''empty'', Dir [])])
   \<and> deleteGallery sampleRuntime (Some sampleRoot) (Some ''other'') ''trip'' =
       Done (Fail 403 ''Invalid password'', Some sampleRoot)
   \<and> galleryNode (Some albumRoot) ''album'' = Some (Dir albumDir)
   \<and> metadataFiles albumDir = [(''cccc4444_metadata.json'', Json albumOnly)]
   \<and> galleryDeletePassword albumOnly = Some ''Secret''
   \<and> deleteGallery sampleRuntime (Some albumRoot) (Some ''secret'') ''album'' =
       Done (ServerError,
             Some [(''album'', Dir [(''thumbs'', SubDir), (''cccc4444_photo.jpg'', Blob ''jpg'')])])"
proof -
  have p: "plainName ''trip''" "plainName ''album''" by (simp_all add: plainName_def)
  have h1: "galleryNode (Some sampleRoot) ''trip'' = Some (Dir tripDir)"
    by (simp add: galleryNode_def sampleRoot_def)
  have h2: "metadataFiles tripDir =
       (''aaaa1111_metadata.json'', Json tripFirst) # [(''aaaa2222_metadata.json'', Json tripSecond)]"
    by (simp add: metadataFiles_def tripDir_def str_defs)
  have h3: "galleryDeletePassword tripFirst = Some ''Secret''"
    by (simp add: tripFirst_def sampleAsset_def)
  have h4: "galleryDeletePassword tripSecond = Some ''Other''"
    by (simp add: tripSecond_def sampleAsset_def)
  have k1: "galleryNode (Some albumRoot) ''album'' = Some (Dir albumDir)"
    by (simp add: galleryNode_def albumRoot_def)
  have k2: "metadataFiles albumDir = (''cccc4444_metadata.json'', Json albumOnly) # []"
    by (simp add: metadataFiles_def albumDir_def str_defs)
  have k3: "galleryDeletePassword albumOnly = Some ''Secret''"
    by (simp add: albumOnly_def sampleAsset_def)
  have up1: "toUpperCase sampleRuntime ''secret'' = toUpperCase sampleRuntime ''Secret''"
    by (simp add: sampleRuntime_def str_defs)
  have up2: "toUpperCase sampleRuntime ''other'' \<noteq> toUpperCase sampleRuntime ''Secret''"
    by (simp add: sampleRuntime_def str_defs)
  have reg: "regularFiles tripDir" "\<not> regularFiles albumDir"
    by (simp_all add: regularFiles_def tripDir_def albumDir_def)
  have rm: "rmdirSync sampleRoot ''trip'' =
     [(''.temp'', Dir []), (''notes.txt'', Plain),
      (''open'', Dir openDir), (''empty'', Dir [])]"
    by (simp add: rmdirSync_def sampleRoot_def)
  have left: "setDir ''album'' (dropWhile (\<lambda>e. snd e \<noteq> SubDir) albumDir) albumRoot =
     [(''album'', Dir [(''thumbs'', SubDir), (''cccc4444_photo.jpg'', Blob ''jpg'')])]"
    by (simp add: albumRoot_def albumDir_def)
  have a: "deleteGallery sampleRuntime (Some sampleRoot) (Some ''secret'') ''trip'' =
       Done (Deleted ''trip'', Some (rmdirSync sampleRoot ''trip''))"
    using delete_gallery_first_record_decides [OF p(1) h1 h2 refl _ h3, of "''secret''" sampleRuntime]
      up1 reg
    by simp
  have b: "deleteGallery sampleRuntime (Some sampleRoot) (Some ''other'') ''trip'' =
       Done (Fail 403 ''Invalid password'', Some sampleRoot)"
    using delete_gallery_first_record_decides [OF p(1) h1 h2 refl _ h3, of "''other''" sampleRuntime]
      up2
    by simp
  have c: "deleteGallery sampleRuntime (Some albumRoot) (Some ''secret'') ''album'' =
       Done (ServerError,
             Some (setDir ''album'' (dropWhile (\<lambda>e. snd e \<noteq> SubDir) albumDir) albumRoot))"
    using delete_gallery_first_record_decides [OF p(2) k1 k2 refl _ k3, of "''secret''" sampleRuntime]
      up1 reg
    by simp
  from p a b c rm left h1 h2 h3 h4 k1 k2 k3 show ?thesis by simp
qed

subsection \<open>Directory listings\<close>

lemma metadataFiles_Cons:
  "metadataFiles ((f, c) # files) =
     (if isMetadataFile f then (f, c) # metadataFiles files else metadataFiles files)"
  by (simp add: metadataFiles_def)

lemma metadataFiles_Nil: "metadataFiles [] = []"
  by (simp add: metadataFiles_def)

lemma assetRecords_Nil: "assetRecords [] = []"
  by (simp add: assetRecords_def metadataFiles_def List.map_filter_simps)

lemma assetRecords_Cons:
  "assetRecords ((f, c) # files) =
     (if isMetadataFile f
      then (case readMetadata c of None \<Rightarrow> assetRecords files | Some m \<Rightarrow> m # assetRecords files)
      else assetRecords files)"
  by (cases "readMetadata c")
     (simp_all add: assetRecords_def metadataFiles_def List.map_filter_simps)

lemma parseable_Nil: "parseable []"
  by (simp add: parseable_def metadataFiles_def)

lemma parseable_Cons:
  "parseable ((f, c) # files) =
     ((isMetadataFile f \<longrightarrow> readMetadata c \<noteq> None) \<and> parseable files)"
  by (simp add: parseable_def metadataFiles_def)

lemmas dir_simps = metadataFiles_Nil metadataFiles_Cons assetRecords_Nil assetRecords_Cons
  parseable_Nil parseable_Cons

lemma sample_wellFormed: "wellFormed sampleRoot"
  by (simp add: wellFormed_def parseable_def metadataFiles_def sampleRoot_def tripDir_def
        openDir_def str_defs)

lemma sample_storedRecords:
  "storedRecords sampleRoot = [(''trip'', tripFirst), (''trip'', tripSecond), (''open'', openOnly)]"
  by (simp add: storedRecords_def recordsOf_def assetRecords_def metadataFiles_def
        List.map_filter_simps sampleRoot_def tripDir_def openDir_def str_defs)

subsection \<open>Listing the assets of one gallery\<close>

lemma galleryDirs_names: "(d, files) \<in> set (galleryDirs r) \<Longrightarrow> (d, Dir files) \<in> set r \<and> d \<noteq> ''.temp''"
  by (induction r rule: galleryDirs.induct) (auto split: if_splits)

lemma galleryDirs_absent: "g \<notin> fst ` set r \<Longrightarrow> filter (\<lambda>dir. fst dir = g) (galleryDirs r) = []"
  by (induction r rule: galleryDirs.induct) (auto)

lemma galleryDirs_filter:
  "distinct (map fst r) \<Longrightarrow> lookupNode r g = Some (Dir files) \<Longrightarrow> g \<noteq> ''.temp'' \<Longrightarrow>
     filter (\<lambda>dir. fst dir = g) (galleryDirs r) = [(g, files)]"
  by (induction r rule: galleryDirs.induct) (auto simp: galleryDirs_absent split: if_splits)

lemma collectFiles_parseable:
  "parseable files \<Longrightarrow> collectFiles g files = Some (map (withUrls g) (assetRecords files))"
  by (induction files) (auto simp: dir_simps)


lemma viewProtected_parseable: "viewProtected pw files \<Longrightarrow> parseable files"
  by (auto simp: viewProtected_def parseable_def list_all_iff)

lemma viewProtected_first:
  "viewProtected pw files \<Longrightarrow> metadataFiles files = (f, c) # rest \<Longrightarrow>
     \<exists>m. readMetadata c = Some m \<and> galleryViewPassword m = Some pw"
  by (auto simp: viewProtected_def)

lemma checkViewPassword_protected:
  assumes "viewProtected pw files" "metadataFiles files \<noteq> []" "pw \<noteq> []"
  shows "checkViewPassword rt [(g, files)] p =
           (if \<not> truthy p then Some AuthRequired
            else if toUpperCase rt (orElse p []) \<noteq> toUpperCase rt pw then Some (Fail 403 ''Invalid password'')
            else None)"
proof -
  from assms(2) obtain f c rest where mf: "metadataFiles files = (f, c) # rest"
    by (cases "metadataFiles files") auto
  from viewProtected_first [OF assms(1) mf] obtain m
    where m: "readMetadata c = Some m" "galleryViewPassword m = Some pw" by blast
  show ?thesis using mf m assms(3) by (cases p) auto
qed

text \<open>
  Claim C1. Let the gallery directory \<open>g\<close> hold at least one record file and let every
  record of it carry the view password \<open>pw\<close>, a non-empty string. Then
  \<^verbatim>\<open>GET /api/photos?gallery=g\<close> answers 401 when no password (or the empty one) is
  supplied, 403 when the supplied password differs from \<open>pw\<close> after \<^verbatim>\<open>toUpperCase\<close>
  on both, and otherwise the records of the gallery with their URLs, newest upload first.
  The comparison ignoring case is the one the handler makes: equality of the two strings
  after \<^verbatim>\<open>toUpperCase\<close>, for whatever that function of the platform is. The
  parameters \<^verbatim>\<open>gallery\<close> and \<^verbatim>\<open>p\<close> of the query are strings (a repeated parameter
  would be an array, on which \<^verbatim>\<open>toUpperCase\<close> throws), and the order of the listing
  is that of the upload dates as the platform parses them.
\<close>

theorem view_password_gate:
  assumes "distinct (map fst r)" and "lookupNode r g = Some (Dir files)"
      and "g \<noteq> []" and "g \<noteq> ''.temp''"
      and "metadataFiles files \<noteq> []" and "viewProtected pw files" and "pw \<noteq> []"
  shows "listAssets rt (Some r) (Some g) p =
           (if \<not> truthy p then AuthRequired
            else if toUpperCase rt (orElse p []) \<noteq> toUpperCase rt pw then Fail 403 ''Invalid password''
            else Photos (sortPhotos rt (map (withUrls g) (assetRecords files)))
                        (length (assetRecords files)))"
proof -
  have dirs: "filter (\<lambda>dir. fst dir = g) (galleryDirs r) = [(g, files)]"
    using assms(1,2,4) by (rule galleryDirs_filter)
  have chk: "checkViewPassword rt [(g, files)] p =
           (if \<not> truthy p then Some AuthRequired
            else if toUpperCase rt (orElse p []) \<noteq> toUpperCase rt pw then Some (Fail 403 ''Invalid password'')
            else None)"
    using assms(6,5,7) by (rule checkViewPassword_protected)
  have col: "collectDirs [(g, files)] = Some (map (withUrls g) (assetRecords files))"
    using collectFiles_parseable [OF viewProtected_parseable [OF assms(6)]] by simp
  show ?thesis
    using assms(3)
    by (simp add: listAssets_def dirs chk col sortPhotos_def
             del: checkViewPassword.simps collectDirs.simps)
qed

text \<open>
  The example of the specification: stored password \<open>ABC123\<close>; no password, the
  password \<open>WRONG\<close>, and \<open>abc123\<close>.
\<close>

theorem view_password_gate_witness:
  "distinct (map fst sampleRoot) \<and> lookupNode sampleRoot ''trip'' = Some (Dir tripDir)
   \<and> metadataFiles tripDir \<noteq> [] \<and> viewProtected ''ABC123'' tripDir
   \<and> listAssets sampleRuntime (Some sampleRoot) (Some ''trip'') None = AuthRequired
   \<and> listAssets sampleRuntime (Some sampleRoot) (Some ''trip'') (Some ''WRONG'') =
       Fail 403 ''Invalid password''
   \<and> listAssets sampleRuntime (Some sampleRoot) (Some ''trip'') (Some ''abc123'') =
       Photos [withUrls ''trip'' tripSecond, withUrls ''trip'' tripFirst] 2"
proof -
  have h1: "distinct (map fst sampleRoot)" by (simp add: sampleRoot_def)
  have h2: "lookupNode sampleRoot ''trip'' = Some (Dir tripDir)" by (simp add: sampleRoot_def)
  have h3: "''trip'' \<noteq> []" and h4: "''trip'' \<noteq> ''.temp''" and h7: "''ABC123'' \<noteq> []"
    by simp_all
  have mf: "metadataFiles tripDir =
       [(''aaaa1111_metadata.json'', Json tripFirst), (''aaaa2222_metadata.json'', Json tripSecond)]"
    by (simp add: metadataFiles_def tripDir_def str_defs)
  have h5: "metadataFiles tripDir \<noteq> []" by (simp add: mf)
  have h6: "viewProtected ''ABC123'' tripDir"
    by (simp add: viewProtected_def mf tripFirst_def tripSecond_def sampleAsset_def)
  note gate = view_password_gate [OF h1 h2 h3 h4 h5 h6 h7, of sampleRuntime]
  have recs: "assetRecords tripDir = [tripFirst, tripSecond]"
    by (simp add: assetRecords_def mf List.map_filter_simps)
  have srt: "sortPhotos sampleRuntime [withUrls ''trip'' tripFirst, withUrls ''trip'' tripSecond] =
               [withUrls ''trip'' tripSecond, withUrls ''trip'' tripFirst]"
    by (simp add: run_defs tripFirst_def tripSecond_def sampleAsset_def)
  have a: "listAssets sampleRuntime (Some sampleRoot) (Some ''trip'') None = AuthRequired"
    using gate [of None] by simp
  have b: "listAssets sampleRuntime (Some sampleRoot) (Some ''trip'') (Some ''WRONG'') =
       Fail 403 ''Invalid password''"
    using gate [of "Some ''WRONG''"] by (simp add: sample_toUpperCase str_defs)
  have c: "listAssets sampleRuntime (Some sampleRoot) (Some ''trip'') (Some ''abc123'') =
       Photos [withUrls ''trip'' tripSecond, withUrls ''trip'' tripFirst] 2"
    using gate [of "Some ''abc123''"] by (simp add: sample_toUpperCase str_defs recs srt)
  from h1 h2 h5 h6 a b c show ?thesis by simp
qed

subsection \<open>Fetching one asset\<close>

lemma recordsOf_Nil: "recordsOf [] = []"
  by (simp add: recordsOf_def)

lemma recordsOf_Cons:
  "recordsOf ((g, files) # dirs) = map (Pair g) (assetRecords files) @ recordsOf dirs"
  by (simp add: recordsOf_def)

lemma find_append': "find P (xs @ ys) = (case find P xs of None \<Rightarrow> find P ys | Some x \<Rightarrow> Some x)"
  by (induction xs) auto

lemma find_map_Pair: "find (\<lambda>(g, m). P m) (map (Pair d) ms) = map_option (Pair d) (find P ms)"
  by (induction ms) auto

lemma findInFiles_parseable:
  "parseable files \<Longrightarrow>
     findInFiles s files \<noteq> Threw
     \<and> (\<forall>f m. findInFiles s files = Found (f, m) \<longrightarrow>
            find (\<lambda>m. idMatches m s) (assetRecords files) = Some m)
     \<and> (findInFiles s files = Missing \<longrightarrow>
            find (\<lambda>m. idMatches m s) (assetRecords files) = None)"
  by (induction files) (auto simp: dir_simps split: if_splits)

lemma findInDirs_parseable:
  "list_all (\<lambda>d. parseable (snd d)) dirs \<Longrightarrow>
     findInDirs s dirs \<noteq> Threw
     \<and> (\<forall>g f m. findInDirs s dirs = Found (g, f, m) \<longrightarrow>
            find (\<lambda>(g, m). idMatches m s) (recordsOf dirs) = Some (g, m))
     \<and> (findInDirs s dirs = Missing \<longrightarrow>
            find (\<lambda>(g, m). idMatches m s) (recordsOf dirs) = None)"
proof (induction dirs)
  case Nil
  then show ?case by (simp add: recordsOf_Nil)
next
  case (Cons d dirs)
  obtain g files where d: "d = (g, files)" by (cases d)
  from Cons.prems d have p: "parseable files" and ps: "list_all (\<lambda>d. parseable (snd d)) dirs"
    by simp_all
  show ?case
    using findInFiles_parseable [OF p, of s] Cons.IH [OF ps]
    by (cases "findInFiles s files")
       (auto simp: d find_append' find_map_Pair recordsOf_Cons)
qed

text \<open>
  Claim C5. On a well-formed store \<^verbatim>\<open>GET /api/photos/:id\<close> returns the first stored
  record, in scan order over all gallery directories, whose id is the requested string
  or starts with it, with the two derived fields set: \<open>photoUrl\<close> is \<^verbatim>\<open>/files/\<close>, the
  name of the directory the record lies in, a slash and the record's \<open>photoFile\<close>, and
  \<open>videoUrl\<close> likewise with \<open>videoFile\<close>; every other field is that of the stored
  record. It answers 404 when there is no such record, and when the upload directory
  does not exist.
\<close>

theorem get_photo_first_match:
  "getPhoto None s = PhotoNotFound
   \<and> (wellFormed r \<longrightarrow>
        getPhoto (Some r) s =
          (case find (\<lambda>(g, m). id' m = s \<or> startsWith (id' m) s) (storedRecords r) of
             None \<Rightarrow> PhotoNotFound
           | Some (g, m) \<Rightarrow>
               Asset (m\<lparr> photoUrl := Some (''/files/'' @ g @ ''/'' @ photoFile m),
                         videoUrl := Some (''/files/'' @ g @ ''/'' @ videoFile m) \<rparr>)))"
proof (intro conjI impI)
  show "getPhoto None s = PhotoNotFound" by (simp add: getPhoto_def)
next
  assume "wellFormed r"
  then have wf: "list_all (\<lambda>d. parseable (snd d)) (galleryDirs r)" by (simp add: wellFormed_def)
  have eq: "storedRecords r = recordsOf (galleryDirs r)"
    by (simp add: storedRecords_def)
  have P: "(\<lambda>(g, m). id' m = s \<or> startsWith (id' m) s) = (\<lambda>(g, m). idMatches m s)"
    by (simp add: idMatches_def)
  show "getPhoto (Some r) s =
          (case find (\<lambda>(g, m). id' m = s \<or> startsWith (id' m) s) (storedRecords r) of
             None \<Rightarrow> PhotoNotFound
           | Some (g, m) \<Rightarrow>
               Asset (m\<lparr> photoUrl := Some (''/files/'' @ g @ ''/'' @ photoFile m),
                         videoUrl := Some (''/files/'' @ g @ ''/'' @ videoFile m) \<rparr>))"
    using findInDirs_parseable [OF wf, of s]
    by (cases "findInDirs s (galleryDirs r)") (auto simp: getPhoto_def eq P withUrls_def)
qed

text \<open>
  Two records of gallery \<open>trip\<close> start with \<open>aaaa\<close>: the first one is returned,
  with the URLs of its two files in \<open>trip\<close>. A full id finds its record, and \<open>cccc\<close>
  finds nothing.
\<close>

theorem get_photo_first_match_witness:
  "wellFormed sampleRoot
   \<and> getPhoto (Some sampleRoot) ''aaaa'' =
       Asset (tripFirst\<lparr> photoUrl := Some ''/files/trip/aaaa1111_photo.jpg'',
                         videoUrl := Some ''/files/trip/aaaa1111_video.mov'' \<rparr>)
   \<and> getPhoto (Some sampleRoot) ''aaaa2222-0002'' =
       Asset (tripSecond\<lparr> photoUrl := Some ''/files/trip/aaaa2222_photo.jpg'',
                          videoUrl := Some ''/files/trip/aaaa2222_video.mov'' \<rparr>)
   \<and> getPhoto (Some sampleRoot) ''bbbb3333-0003'' =
       Asset (openOnly\<lparr> photoUrl := Some ''/files/open/bbbb3333_photo.jpg'',
                        videoUrl := Some ''/files/open/bbbb3333_video.mov'' \<rparr>)
   \<and> getPhoto (Some sampleRoot) ''cccc'' = PhotoNotFound"
proof -
  note t = get_photo_first_match [of _ sampleRoot, THEN conjunct2, rule_format, OF sample_wellFormed]
  have a: "getPhoto (Some sampleRoot) ''aaaa'' =
       Asset (tripFirst\<lparr> photoUrl := Some ''/files/trip/aaaa1111_photo.jpg'',
                         videoUrl := Some ''/files/trip/aaaa1111_video.mov'' \<rparr>)"
    using t [of "''aaaa''"]
    by (simp add: sample_storedRecords tripFirst_def tripSecond_def openOnly_def sampleAsset_def
          str_defs)
  have b: "getPhoto (Some sampleRoot) ''aaaa2222-0002'' =
       Asset (tripSecond\<lparr> photoUrl := Some ''/files/trip/aaaa2222_photo.jpg'',
                          videoUrl := Some ''/files/trip/aaaa2222_video.mov'' \<rparr>)"
    using t [of "''aaaa2222-0002''"]
    by (simp add: sample_storedRecords tripFirst_def tripSecond_def openOnly_def sampleAsset_def
          str_defs)
  have o: "getPhoto (Some sampleRoot) ''bbbb3333-0003'' =
       Asset (openOnly\<lparr> photoUrl := Some ''/files/open/bbbb3333_photo.jpg'',
                        videoUrl := Some ''/files/open/bbbb3333_video.mov'' \<rparr>)"
    using t [of "''bbbb3333-0003''"]
    by (simp add: sample_storedRecords tripFirst_def tripSecond_def openOnly_def sampleAsset_def
          str_defs)
  have c: "getPhoto (Some sampleRoot) ''cccc'' = PhotoNotFound"
    using t [of "''cccc''"]
    by (simp add: sample_storedRecords tripFirst_def tripSecond_def openOnly_def sampleAsset_def
          str_defs)
  from sample_wellFormed a b o c show ?thesis by simp
qed

subsection \<open>Listing without a gallery filter\<close>





subsection \<open>What the read replies contain\<close>

lemma collectFiles_sound:
  "collectFiles g files = Some ps \<Longrightarrow> x \<in> set ps \<Longrightarrow>
     \<exists>m \<in> set (assetRecords files). x = withUrls g m"
  by (induction files arbitrary: ps)
     (auto simp: dir_simps split: if_splits option.splits)

lemma collectDirs_sound:
  "collectDirs dirs = Some ps \<Longrightarrow> x \<in> set ps \<Longrightarrow>
     \<exists>(g, m) \<in> set (recordsOf dirs). x = withUrls g m"
proof (induction dirs arbitrary: ps)
  case Nil
  then show ?case by simp
next
  case (Cons d dirs)
  obtain g files where d: "d = (g, files)" by (cases d)
  from Cons.prems(1) d obtain ps1 ps2
    where c1: "collectFiles g files = Some ps1" and c2: "collectDirs dirs = Some ps2"
      and ps: "ps = ps1 @ ps2"
    by (auto split: option.splits)
  have rec: "recordsOf (d # dirs) = map (Pair g) (assetRecords files) @ recordsOf dirs"
    by (simp add: recordsOf_def d)
  from Cons.prems(2) ps consider "x \<in> set ps1" | "x \<in> set ps2" by auto
  then show ?case
  proof cases
    case 1
    from collectFiles_sound [OF c1 1] obtain m
      where "m \<in> set (assetRecords files)" "x = withUrls g m" by auto
    then show ?thesis by (auto simp: rec)
  next
    case 2
    from Cons.IH [OF c2 2] show ?thesis by (auto simp: rec)
  qed
qed

lemma recordsOf_filter: "set (recordsOf (filter P dirs)) \<subseteq> set (recordsOf dirs)"
  by (auto simp: recordsOf_def)

lemma findInFiles_sound: "findInFiles s files = Found (f, m) \<Longrightarrow> m \<in> set (assetRecords files)"
  by (induction files) (auto simp: dir_simps split: if_splits option.splits)

lemma findInDirs_sound: "findInDirs s dirs = Found (g, f, m) \<Longrightarrow> (g, m) \<in> set (recordsOf dirs)"
proof (induction dirs)
  case Nil
  then show ?case by simp
next
  case (Cons d dirs)
  obtain g' files where d: "d = (g', files)" by (cases d)
  have rec: "recordsOf (d # dirs) = map (Pair g') (assetRecords files) @ recordsOf dirs"
    by (simp add: recordsOf_def d)
  show ?case
    using Cons findInFiles_sound [of s files]
    by (cases "findInFiles s files") (auto simp: d recordsOf_Cons)
qed

lemma withUrls_passwords:
  "galleryViewPassword (withUrls g m) = galleryViewPassword m
   \<and> galleryDeletePassword (withUrls g m) = galleryDeletePassword m"
  by (simp add: withUrls_def)

lemma checkViewPassword_replies:
  "checkViewPassword rt dirs p = Some rep \<Longrightarrow>
     rep = ServerError \<or> rep = AuthRequired \<or> rep = Fail 403 ''Invalid password''"
  by (cases dirs) (auto split: list.splits option.splits if_splits)

text \<open>
  Claim C9. Every asset object in a reply of \<^verbatim>\<open>GET /api/photos\<close> and the asset object
  of \<^verbatim>\<open>GET /api/photos/:id\<close> is a stored record with the two URLs added: its
  \<open>galleryViewPassword\<close> and \<open>galleryDeletePassword\<close> are those of the stored record.
\<close>

theorem replies_carry_passwords:
  "(listAssets rt (Some r) gallery p = Photos photos n \<longrightarrow>
      (\<forall>x \<in> set photos. \<exists>(g, m) \<in> set (storedRecords r).
          x = withUrls g m
          \<and> galleryViewPassword x = galleryViewPassword m
          \<and> galleryDeletePassword x = galleryDeletePassword m))
   \<and> (getPhoto (Some r) i = Asset y \<longrightarrow>
      (\<exists>(g, m) \<in> set (storedRecords r).
          y = withUrls g m
          \<and> galleryViewPassword y = galleryViewPassword m
          \<and> galleryDeletePassword y = galleryDeletePassword m))"
proof (intro conjI impI ballI)
  have eq: "storedRecords r = recordsOf (galleryDirs r)"
    by (simp add: storedRecords_def)
  fix x assume a: "listAssets rt (Some r) gallery p = Photos photos n" and x: "x \<in> set photos"
  define dirs where "dirs = (if truthy gallery
                       then filter (\<lambda>dir. fst dir = orElse gallery []) (galleryDirs r)
                       else galleryDirs r)"
  from a obtain ps where c: "collectDirs dirs = Some ps" and ph: "photos = sortPhotos rt ps"
    by (auto simp: listAssets_def dirs_def Let_def split: option.splits if_splits
             simp del: checkViewPassword.simps dest: checkViewPassword_replies)
  from x ph have "x \<in> set ps" by (simp add: sortPhotos_def)
  from collectDirs_sound [OF c this] obtain g m
    where gm: "(g, m) \<in> set (recordsOf dirs)" and xe: "x = withUrls g m" by auto
  have "set (recordsOf dirs) \<subseteq> set (recordsOf (galleryDirs r))"
    by (simp add: dirs_def recordsOf_filter)
  with gm have "(g, m) \<in> set (storedRecords r)" by (auto simp: eq)
  then show "\<exists>(g, m) \<in> set (storedRecords r).
          x = withUrls g m
          \<and> galleryViewPassword x = galleryViewPassword m
          \<and> galleryDeletePassword x = galleryDeletePassword m"
    using xe withUrls_passwords by blast
next
  have eq: "storedRecords r = recordsOf (galleryDirs r)"
    by (simp add: storedRecords_def)
  assume a: "getPhoto (Some r) i = Asset y"
  then obtain g f m where fd: "findInDirs i (galleryDirs r) = Found (g, f, m)"
    and ye: "y = withUrls g m"
    by (auto simp: getPhoto_def split: search.splits)
  from findInDirs_sound [OF fd] have "(g, m) \<in> set (storedRecords r)" by (simp add: eq)
  then show "\<exists>(g, m) \<in> set (storedRecords r).
          y = withUrls g m
          \<and> galleryViewPassword y = galleryViewPassword m
          \<and> galleryDeletePassword y = galleryDeletePassword m"
    using ye withUrls_passwords by blast
qed

text \<open>The replies for gallery \<open>trip\<close> show \<open>ABC123\<close> and \<open>Secret\<close>.\<close>

theorem replies_carry_passwords_witness:
  "listAssets sampleRuntime (Some sampleRoot) (Some ''trip'') (Some ''abc123'') =
       Photos [withUrls ''trip'' tripSecond, withUrls ''trip'' tripFirst] 2
   \<and> getPhoto (Some sampleRoot) ''aaaa'' = Asset (withUrls ''trip'' tripFirst)
   \<and> storedRecords sampleRoot =
       [(''trip'', tripFirst), (''trip'', tripSecond), (''open'', openOnly)]
   \<and> galleryViewPassword (withUrls ''trip'' tripFirst) = Some ''ABC123''
   \<and> galleryDeletePassword (withUrls ''trip'' tripFirst) = Some ''Secret''
   \<and> galleryViewPassword (withUrls ''trip'' tripSecond) = Some ''ABC123''
   \<and> galleryDeletePassword (withUrls ''trip'' tripSecond) = Some ''Other''"
proof -
  have l: "listAssets sampleRuntime (Some sampleRoot) (Some ''trip'') (Some ''abc123'') =
       Photos [withUrls ''trip'' tripSecond, withUrls ''trip'' tripFirst] 2"
    by (simp add: listAssets_def sample_defs run_defs metadataFiles_def str_defs)
  have g: "getPhoto (Some sampleRoot) ''aaaa'' = Asset (withUrls ''trip'' tripFirst)"
    by (simp add: getPhoto_def sample_defs idMatches_def str_defs)
  note t = replies_carry_passwords [of sampleRuntime sampleRoot "Some ''trip''" "Some ''abc123''"
      "[withUrls ''trip'' tripSecond, withUrls ''trip'' tripFirst]" 2 "''aaaa''"
      "withUrls ''trip'' tripFirst"]
  from t l have two: "\<exists>(g, m) \<in> set (storedRecords sampleRoot).
      withUrls ''trip'' tripSecond = withUrls g m
      \<and> galleryViewPassword (withUrls ''trip'' tripSecond) = galleryViewPassword m
      \<and> galleryDeletePassword (withUrls ''trip'' tripSecond) = galleryDeletePassword m"
    by simp
  from t g have one: "\<exists>(g, m) \<in> set (storedRecords sampleRoot).
      withUrls ''trip'' tripFirst = withUrls g m
      \<and> galleryViewPassword (withUrls ''trip'' tripFirst) = galleryViewPassword m
      \<and> galleryDeletePassword (withUrls ''trip'' tripFirst) = galleryDeletePassword m"
    by simp
  have ne: "withUrls ''trip'' tripFirst \<noteq> withUrls ''trip'' tripSecond"
      "withUrls ''trip'' tripFirst \<noteq> withUrls ''open'' openOnly"
      "withUrls ''trip'' tripSecond \<noteq> withUrls ''trip'' tripFirst"
      "withUrls ''trip'' tripSecond \<noteq> withUrls ''open'' openOnly"
    by (simp_all add: withUrls_def tripFirst_def tripSecond_def openOnly_def sampleAsset_def)
  have pw: "galleryViewPassword tripFirst = Some ''ABC123''"
      "galleryDeletePassword tripFirst = Some ''Secret''"
      "galleryViewPassword tripSecond = Some ''ABC123''"
      "galleryDeletePassword tripSecond = Some ''Other''"
    by (simp_all add: tripFirst_def tripSecond_def sampleAsset_def)
  from one ne pw have a: "galleryViewPassword (withUrls ''trip'' tripFirst) = Some ''ABC123''
      \<and> galleryDeletePassword (withUrls ''trip'' tripFirst) = Some ''Secret''"
    by (auto simp: sample_storedRecords)
  from two ne pw have b: "galleryViewPassword (withUrls ''trip'' tripSecond) = Some ''ABC123''
      \<and> galleryDeletePassword (withUrls ''trip'' tripSecond) = Some ''Other''"
    by (auto simp: sample_storedRecords)
  from l g a b sample_storedRecords show ?thesis by simp
qed

subsection \<open>A gallery directory without records\<close>

lemma galleryDirs_rmdirSync:
  "galleryDirs (rmdirSync r g) = filter (\<lambda>d. fst d \<noteq> g) (galleryDirs r)"
  by (induction r rule: galleryDirs.induct) (auto simp: rmdirSync_def)

lemma galleryDirs_unique:
  "distinct (map fst r) \<Longrightarrow> lookupNode r g = Some (Dir files) \<Longrightarrow>
     (g, fs) \<in> set (galleryDirs r) \<Longrightarrow> fs = files"
proof (induction r rule: galleryDirs.induct)
  case 1
  then show ?case by simp
next
  case (2 d files' r)
  then show ?case
    by (auto split: if_splits dest: galleryDirs_names simp: rev_image_eqI)
next
  case (3 d r)
  then show ?case
    by (auto split: if_splits dest: galleryDirs_names simp: rev_image_eqI)
qed

lemma collectFiles_no_metadata: "metadataFiles fs = [] \<Longrightarrow> collectFiles d fs = Some []"
  by (induction fs) (auto simp: dir_simps split: if_splits)

lemma findInFiles_no_metadata: "metadataFiles fs = [] \<Longrightarrow> findInFiles i fs = Missing"
  by (induction fs) (auto simp: dir_simps split: if_splits)

lemma collectDirs_all_empty:
  "\<forall>d \<in> set dirs. metadataFiles (snd d) = [] \<Longrightarrow> collectDirs dirs = Some []"
  by (induction dirs) (auto simp: collectFiles_no_metadata)

lemma collectDirs_skip:
  "\<forall>d \<in> set dirs. fst d = g \<longrightarrow> metadataFiles (snd d) = [] \<Longrightarrow>
     collectDirs (filter (\<lambda>d. fst d \<noteq> g) dirs) = collectDirs dirs"
  by (induction dirs) (auto simp: collectFiles_no_metadata split: option.splits)

lemma findInDirs_skip:
  "\<forall>d \<in> set dirs. fst d = g \<longrightarrow> metadataFiles (snd d) = [] \<Longrightarrow>
     findInDirs i (filter (\<lambda>d. fst d \<noteq> g) dirs) = findInDirs i dirs"
  by (induction dirs) (auto simp: findInFiles_no_metadata split: search.splits)

lemma checkViewPassword_all_empty:
  "\<forall>d \<in> set dirs. metadataFiles (snd d) = [] \<Longrightarrow> checkViewPassword rt dirs p = None"
  by (cases dirs) auto

lemma filter_other: "q \<noteq> g \<Longrightarrow>
  filter (\<lambda>d. fst d \<noteq> g \<and> fst d = q) dirs = filter (\<lambda>d. fst d = q) dirs"
  by (induction dirs) auto

lemma filter_same: "filter (\<lambda>d. fst d \<noteq> g \<and> fst d = g) dirs = []"
  by (induction dirs) auto

lemma listAssets_skip:
  assumes e: "\<forall>d \<in> set (galleryDirs r). fst d = g \<longrightarrow> metadataFiles (snd d) = []"
  shows "listAssets rt (Some r) q p = listAssets rt (Some (rmdirSync r g)) q p"
proof (cases "truthy q")
  case False
  then show ?thesis
    by (simp add: listAssets_def galleryDirs_rmdirSync collectDirs_skip [OF e])
next
  case True
  show ?thesis
  proof (cases "orElse q [] = g")
    case False
    with True show ?thesis
      by (simp add: listAssets_def galleryDirs_rmdirSync filter_other
               del: checkViewPassword.simps collectDirs.simps)
  next
    case same: True
    have all: "\<forall>d \<in> set (filter (\<lambda>d. fst d = g) (galleryDirs r)). metadataFiles (snd d) = []"
      using e by auto
    show ?thesis
      using True same
      by (simp add: listAssets_def galleryDirs_rmdirSync filter_same
            checkViewPassword_all_empty [OF all] collectDirs_all_empty [OF all] sortPhotos_def
            del: checkViewPassword.simps(2) collectDirs.simps(2))
  qed
qed

lemma galleryEntries_ids: "galleryEntries rt dirs = Some gs \<Longrightarrow> map info_id gs = map fst dirs"
  by (induction dirs arbitrary: gs)
     (auto simp: galleryEntry_def split: option.splits list.splits)

lemma galleryEntries_empty_entry:
  "galleryEntries rt dirs = Some gs \<Longrightarrow> (g, files) \<in> set dirs \<Longrightarrow> metadataFiles files = [] \<Longrightarrow>
     \<lparr> info_id = g, name = g, photoCount = 0, lastUpdated = epochIso \<rparr> \<in> set gs"
  by (induction dirs arbitrary: gs) (auto simp: galleryEntry_def split: option.splits)

lemma galleryDirs_present:
  "lookupNode r g = Some (Dir files) \<Longrightarrow> g \<noteq> ''.temp'' \<Longrightarrow> (g, files) \<in> set (galleryDirs r)"
  by (induction r rule: galleryDirs.induct) (auto split: if_splits)

text \<open>
  Claim C7, as the code has it. A gallery directory without record files gives the same
  reply as a store without that directory for the asset listing, with any filter and
  any password, and for the lookup of an asset by id. The galleries listing does show
  it: as an entry named after the directory, with \<open>photoCount\<close> 0 and the epoch as
  \<open>lastUpdated\<close>, which a store without the directory does not have.
\<close>

theorem empty_gallery_reads:
  assumes "distinct (map fst r)" and "lookupNode r g = Some (Dir files)"
      and "metadataFiles files = []" and "g \<noteq> ''.temp''"
  shows "listAssets rt (Some r) q p = listAssets rt (Some (rmdirSync r g)) q p
       \<and> getPhoto (Some r) i = getPhoto (Some (rmdirSync r g)) i
       \<and> (\<forall>gs n. listGalleries rt (Some r) = Galleries gs n \<longrightarrow>
            \<lparr> info_id = g, name = g, photoCount = 0, lastUpdated = epochIso \<rparr> \<in> set gs)
       \<and> (\<forall>gs n. listGalleries rt (Some (rmdirSync r g)) = Galleries gs n \<longrightarrow>
            g \<notin> info_id ` set gs)"
proof (intro conjI allI impI)
  have e: "\<forall>d \<in> set (galleryDirs r). fst d = g \<longrightarrow> metadataFiles (snd d) = []"
    using galleryDirs_unique [OF assms(1,2)] assms(3) by auto
  show "listAssets rt (Some r) q p = listAssets rt (Some (rmdirSync r g)) q p"
    using e by (rule listAssets_skip)
  show "getPhoto (Some r) i = getPhoto (Some (rmdirSync r g)) i"
    by (simp add: getPhoto_def galleryDirs_rmdirSync findInDirs_skip [OF e])
next
  fix gs n assume a: "listGalleries rt (Some r) = Galleries gs n"
  then obtain gs0 where g0: "galleryEntries rt (galleryDirs r) = Some gs0"
    and gs: "gs = sortGalleries rt gs0"
    by (auto simp: listGalleries_def split: option.splits)
  from galleryEntries_empty_entry [OF g0 galleryDirs_present [OF assms(2,4)] assms(3)]
  show "\<lparr> info_id = g, name = g, photoCount = 0, lastUpdated = epochIso \<rparr> \<in> set gs"
    by (simp add: gs sortGalleries_def)
next
  fix gs n assume a: "listGalleries rt (Some (rmdirSync r g)) = Galleries gs n"
  then obtain gs0 where g0: "galleryEntries rt (galleryDirs (rmdirSync r g)) = Some gs0"
    and gs: "gs = sortGalleries rt gs0"
    by (auto simp: listGalleries_def split: option.splits)
  from galleryEntries_ids [OF g0]
  have "set (map info_id gs0) = fst ` set (filter (\<lambda>d. fst d \<noteq> g) (galleryDirs r))"
    by (simp add: galleryDirs_rmdirSync)
  then have "g \<notin> info_id ` set gs0" by auto
  then show "g \<notin> info_id ` set gs" by (simp add: gs sortGalleries_def)
qed

text \<open>
  Claim C7 as it is written fails on the galleries listing: the directory \<open>empty\<close> has
  no asset record and is listed, and the listing differs from that of the store without
  it.
\<close>

theorem empty_gallery_listed_counterexample:
  "lookupNode sampleRoot ''empty'' = Some (Dir []) \<and> assetRecords [] = []
   \<and> listGalleries sampleRuntime (Some sampleRoot) =
       Galleries
         [\<lparr> info_id = ''trip'', name = ''trip'', photoCount = 2,
             lastUpdated = ''2024-05-02T10:00:00.000Z'' \<rparr>,
          \<lparr> info_id = ''open'', name = ''open'', photoCount = 1,
             lastUpdated = ''2024-05-01T10:00:00.000Z'' \<rparr>,
          \<lparr> info_id = ''empty'', name = ''empty'', photoCount = 0,
             lastUpdated = ''1970-01-01T00:00:00.000Z'' \<rparr>] 3
   \<and> listGalleries sampleRuntime (Some (rmdirSync sampleRoot ''empty'')) =
       Galleries
         [\<lparr> info_id = ''trip'', name = ''trip'', photoCount = 2,
             lastUpdated = ''2024-05-02T10:00:00.000Z'' \<rparr>,
          \<lparr> info_id = ''open'', name = ''open'', photoCount = 1,
             lastUpdated = ''2024-05-01T10:00:00.000Z'' \<rparr>] 2"
  by (simp add: listGalleries_def galleryEntry_def sortGalleries_def epochIso_def rmdirSync_def
        sample_defs dir_simps str_defs sampleRuntime_def sampleTimes_def)

text \<open>The directory \<open>empty\<close> of the sample store.\<close>

theorem empty_gallery_reads_witness:
  "distinct (map fst sampleRoot) \<and> lookupNode sampleRoot ''empty'' = Some (Dir [])
   \<and> metadataFiles [] = [] \<and> ''empty'' \<noteq> ''.temp''
   \<and> listAssets sampleRuntime (Some sampleRoot) (Some ''empty'') None = Photos [] 0
   \<and> listAssets sampleRuntime (Some (rmdirSync sampleRoot ''empty'')) (Some ''empty'') None =
       Photos [] 0
   \<and> getPhoto (Some sampleRoot) ''bbbb'' = getPhoto (Some (rmdirSync sampleRoot ''empty'')) ''bbbb''
   \<and> \<lparr> info_id = ''empty'', name = ''empty'', photoCount = 0, lastUpdated = epochIso \<rparr>
        \<in> set [\<lparr> info_id = ''trip'', name = ''trip'', photoCount = 2,
                  lastUpdated = ''2024-05-02T10:00:00.000Z'' \<rparr>,
               \<lparr> info_id = ''open'', name = ''open'', photoCount = 1,
                  lastUpdated = ''2024-05-01T10:00:00.000Z'' \<rparr>,
               \<lparr> info_id = ''empty'', name = ''empty'', photoCount = 0,
                  lastUpdated = ''1970-01-01T00:00:00.000Z'' \<rparr>]"
proof -
  have h1: "distinct (map fst sampleRoot)" by (simp add: sampleRoot_def)
  have h2: "lookupNode sampleRoot ''empty'' = Some (Dir [])" by (simp add: sampleRoot_def)
  have h3: "metadataFiles [] = []" by (simp add: metadataFiles_def)
  have h4: "''empty'' \<noteq> ''.temp''" by simp
  note t = empty_gallery_reads [OF h1 h2 h3 h4]
  have l: "listAssets sampleRuntime (Some (rmdirSync sampleRoot ''empty'')) (Some ''empty'') None =
       Photos [] 0"
    by (simp add: listAssets_def rmdirSync_def sampleRoot_def sortPhotos_def)
  have l': "listAssets sampleRuntime (Some sampleRoot) (Some ''empty'') None = Photos [] 0"
    using t [of sampleRuntime "Some ''empty''" None] l by simp
  have g: "getPhoto (Some sampleRoot) ''bbbb'' = getPhoto (Some (rmdirSync sampleRoot ''empty'')) ''bbbb''"
    using t [of sampleRuntime None None "''bbbb''"] by simp
  have gl: "listGalleries sampleRuntime (Some sampleRoot) =
       Galleries
         [\<lparr> info_id = ''trip'', name = ''trip'', photoCount = 2,
             lastUpdated = ''2024-05-02T10:00:00.000Z'' \<rparr>,
          \<lparr> info_id = ''open'', name = ''open'', photoCount = 1,
             lastUpdated = ''2024-05-01T10:00:00.000Z'' \<rparr>,
          \<lparr> info_id = ''empty'', name = ''empty'', photoCount = 0,
             lastUpdated = ''1970-01-01T00:00:00.000Z'' \<rparr>] 3"
    by (simp add: listGalleries_def galleryEntry_def sortGalleries_def epochIso_def
        sample_defs dir_simps str_defs sampleRuntime_def sampleTimes_def)
  have m: "\<lparr> info_id = ''empty'', name = ''empty'', photoCount = 0, lastUpdated = epochIso \<rparr>
        \<in> set [\<lparr> info_id = ''trip'', name = ''trip'', photoCount = 2,
                  lastUpdated = ''2024-05-02T10:00:00.000Z'' \<rparr>,
               \<lparr> info_id = ''open'', name = ''open'', photoCount = 1,
                  lastUpdated = ''2024-05-01T10:00:00.000Z'' \<rparr>,
               \<lparr> info_id = ''empty'', name = ''empty'', photoCount = 0,
                  lastUpdated = ''1970-01-01T00:00:00.000Z'' \<rparr>]"
    using t [of sampleRuntime None None "''bbbb''"] gl by blast
  from h1 h2 h3 h4 l l' g m show ?thesis by blast
qed

subsection \<open>Upload\<close>

lemma heic_ext_long:
  assumes "isHeicName (a @ ''_photo'' @ e)"
  shows "5 \<le> length e"
proof (rule ccontr)
  assume "\<not> 5 \<le> length e"
  then have "length e < 5" by simp
  then consider "e = []" | "\<exists>c1. e = [c1]" | "\<exists>c1 c2. e = [c1, c2]"
    | "\<exists>c1 c2 c3. e = [c1, c2, c3]" | "\<exists>c1 c2 c3 c4. e = [c1, c2, c3, c4]"
    by (cases e; simp; cases "tl e"; simp; cases "tl (tl e)"; simp; cases "tl (tl (tl e))"; simp;
        cases "tl (tl (tl (tl e)))"; simp)
  then show False
    using assms
    by cases (auto simp: isHeicName_def endsWith_def lowerAscii_def lowerAsciiChar_def
                lowerLetters_def upperLetters_def)
qed

lemma replaceHeic_photo:
  assumes "isHeicName (a @ ''_photo'' @ e)"
  shows "replaceHeic (a @ ''_photo'' @ e) = a @ ''_photo'' @ take (length e - 5) e @ ''.jpg''"
proof -
  from heic_ext_long [OF assms] obtain k where "length e = 5 + k"
    using le_Suc_ex by blast
  then have n: "length e = Suc (Suc (Suc (Suc (Suc k))))" by simp
  have "take (length (a @ ''_photo'' @ e) - 5) (a @ ''_photo'' @ e) =
          a @ ''_photo'' @ take (length e - 5) e"
    by (simp add: n eval_nat_numeral)
  with assms show ?thesis by (simp only: replaceHeic_def if_True append_assoc)
qed

lemma endsWith_append: "endsWith (xs @ ys) ys"
  by (simp add: endsWith_def)

text \<open>
  The handler tests the name the photo is stored under, which ends in what
  \<^verbatim>\<open>path.extname\<close> gives for the original name. On POSIX an original name
  \<^verbatim>\<open>stem.heic\<close> (any letter case, a non-empty stem, no path separator) has the
  extension \<^verbatim>\<open>.heic\<close>, so that the stored name ends in it. An original name that is
  just \<^verbatim>\<open>.heic\<close> has no extension: the photo is stored as \<^verbatim>\<open>_photo\<close> after the asset
  prefix and is not converted.
\<close>

lemma posixExtname_plain:
  assumes "stem \<noteq> []" and "CHR ''/'' \<notin> set (stem @ rest)" and "CHR ''.'' \<notin> set rest"
      and "stem @ CHR ''.'' # rest \<noteq> ''..''"
  shows "posixExtname (stem @ CHR ''.'' # rest) = CHR ''.'' # rest"
proof -
  let ?p = "stem @ CHR ''.'' # rest"
  have noslash: "\<forall>c \<in> set (rev ?p). c \<noteq> CHR ''/''" using assms(2) by auto
  define q where "q = rev ?p"
  have q: "q \<noteq> []" "\<forall>c \<in> set q. c \<noteq> CHR ''/''"
    using noslash by (simp_all add: q_def)
  have "dropWhile (\<lambda>c. c = CHR ''/'') q = q"
    using q by (cases q) auto
  then have trimmed: "rev (dropWhile (\<lambda>c. c = CHR ''/'') (rev ?p)) = ?p"
    unfolding q_def by (simp only: rev_rev_ident)
  have "takeWhile (\<lambda>c. c \<noteq> CHR ''/'') q = q"
    using q(2) by (simp add: takeWhile_eq_all_conv)
  then have base: "rev (takeWhile (\<lambda>c. c \<noteq> CHR ''/'') (rev ?p)) = ?p"
    unfolding q_def by (simp only: rev_rev_ident)
  have "takeWhile (\<lambda>c. c \<noteq> CHR ''.'') (rev rest @ CHR ''.'' # rev stem) = rev rest"
    using assms(3) by (auto simp: takeWhile_tail)
  then have ext: "rev (takeWhile (\<lambda>c. c \<noteq> CHR ''.'') (rev ?p)) = rest" by simp
  show ?thesis
    unfolding posixExtname_def trimmed base ext Let_def using assms(1,4) by simp
qed

lemma heic_original_name:
  assumes "extname rt = posixExtname"
      and "originalname photo = stem @ CHR ''.'' # rest"
      and "stem \<noteq> []" and "CHR ''/'' \<notin> set (stem @ rest)" and "CHR ''.'' \<notin> set rest"
      and "lowerAscii rest = ''heic''"
  shows "isHeicName (photoName rt body photo)"
proof -
  from assms(6) have "length (lowerAscii rest) = 4" by simp
  then have len: "length rest = 4" by (simp add: lowerAscii_def)
  then have "length (stem @ CHR ''.'' # rest) \<noteq> length ''..''" by simp
  then have "stem @ CHR ''.'' # rest \<noteq> ''..''" by metis
  from posixExtname_plain [OF assms(3,4,5) this]
  have e: "extname rt (originalname photo) = CHR ''.'' # rest" by (simp add: assms(1,2))
  have "lowerAscii (photoName rt body photo) =
          lowerAscii (assetId rt body @ ''_photo'') @ ''.heic''"
    using assms(6)
    by (simp add: photoName_def e lowerAscii_def lowerAsciiChar_def lowerLetters_def
          upperLetters_def)
  then show ?thesis unfolding isHeicName_def by (simp only: endsWith_append)
qed

lemma dot_heic_original_name:
  assumes "extname rt = posixExtname" and "originalname photo = ''.heic''"
  shows "photoName rt body photo = assetId rt body @ ''_photo''
         \<and> \<not> isHeicName (photoName rt body photo)"
proof -
  have e: "extname rt (originalname photo) = []"
    by (simp add: assms posixExtname_def)
  have "\<not> isHeicName (assetId rt body @ ''_photo'' @ [])"
    using heic_ext_long [of "assetId rt body" "[]"] by auto
  then show ?thesis by (simp add: photoName_def e)
qed

lemma existsSync_map_of: "existsSync files f = (map_of files f \<noteq> None)"
  by (simp add: existsSync_def map_of_eq_None_iff)

lemma map_of_putFile:
  "map_of (putFile files f c) f' = (if f' = f then Some c else map_of files f')"
proof (cases "existsSync files f")
  case False
  then have "map_of files f = None" by (simp add: existsSync_map_of)
  with False show ?thesis by (auto simp: putFile_def map_add_def split: option.splits)
next
  case True
  have "map_of (map (\<lambda>e. if fst e = f then (f, c) else e) files) f' =
          (if f' = f then (if map_of files f = None then None else Some c) else map_of files f')"
    by (induction files) auto
  with True show ?thesis by (auto simp: putFile_def existsSync_map_of)
qed

lemma map_of_removeFile:
  "map_of (removeFile files f) f' = (if f' = f then None else map_of files f')"
  by (induction files) (auto simp: removeFile_def)

lemma regular_map_of: "regularFiles files \<Longrightarrow> map_of files f \<noteq> Some SubDir"
  by (auto simp: regularFiles_def dest!: map_of_SomeD intro: rev_image_eqI)

lemma writeFileSync_regular:
  "regularFiles files \<Longrightarrow> writeFileSync files f c = Some (putFile files f c)"
  using regular_map_of [of files f]
  by (auto simp: writeFileSync_def split: option.splits entry.splits)

lemma regularFiles_putFile:
  "regularFiles files \<Longrightarrow> c \<noteq> SubDir \<Longrightarrow> regularFiles (putFile files f c)"
  by (auto simp: regularFiles_def putFile_def split: if_splits)

lemma regularFiles_removeFile: "regularFiles files \<Longrightarrow> regularFiles (removeFile files f)"
  by (auto simp: regularFiles_def removeFile_def)

lemma lookupNode_append:
  "lookupNode (r @ r') d = (case lookupNode r d of None \<Rightarrow> lookupNode r' d | Some x \<Rightarrow> Some x)"
  by (induction r) auto

lemma lookupNode_mkdirGallery:
  "galleryUsable st g \<Longrightarrow> lookupNode (mkdirGallery st g) g = Some (Dir (dirOf st g))"
  by (cases st; cases "galleryNode st g")
     (auto simp: galleryUsable_def mkdirGallery_def dirOf_def galleryNode_def lookupNode_append
           split: option.splits node.splits)

lemma lookupNode_mkdirGallery_other:
  "galleryNode st d = Some x \<Longrightarrow> lookupNode (mkdirGallery st g) d = Some x"
  by (cases st)
     (auto simp: mkdirGallery_def galleryNode_def lookupNode_append split: option.splits)

lemma lookupNode_setDir:
  "lookupNode r g = Some (Dir old) \<Longrightarrow> lookupNode (setDir g files r) g = Some (Dir files)"
  by (induction r rule: setDir.induct) (auto split: if_splits)

lemma lookupNode_setDir_other:
  "d \<noteq> g \<Longrightarrow> lookupNode (setDir g files r) d = lookupNode r d"
  by (induction r rule: setDir.induct) auto

lemma dirOf_setDir:
  "lookupNode r g = Some (Dir old) \<Longrightarrow> dirOf (Some (setDir g files r)) g = files"
  by (simp add: dirOf_def galleryNode_def lookupNode_setDir)

text \<open>Moving a file into a directory of regular files goes through.\<close>

lemma renameSync_blob:
  assumes s: "lookupNode r sd = Some (Dir sfiles)"
      and f: "map_of sfiles sf = Some (Blob b)"
      and ne: "dd \<noteq> sd"
      and d: "lookupNode r dd = Some (Dir dfiles)"
      and reg: "regularFiles dfiles"
  shows "renameSync r (sd, sf) (dd, df) =
           Done (Some (setDir dd (putFile dfiles df (Blob b))
                         (setDir sd (removeFile sfiles sf) r)))"
  using ne
  by (auto simp: renameSync_def lookupDir_def s f d Let_def lookupNode_setDir_other
        writeFileSync_regular [OF reg])

lemma photo_video_distinct: "photoName rt body photo \<noteq> videoName rt body video"
  by (simp add: photoName_def videoName_def)

lemma photo_metadata_distinct: "photoName rt body photo \<noteq> metadataName rt body"
  by (simp add: photoName_def metadataName_def)

lemma video_metadata_distinct: "videoName rt body video \<noteq> metadataName rt body"
  by (simp add: videoName_def metadataName_def)

lemma jpeg_name_distinct:
  assumes "isHeicName (photoName rt body photo)"
  shows "replaceHeic (photoName rt body photo) \<noteq> videoName rt body video"
    and "replaceHeic (photoName rt body photo) \<noteq> metadataName rt body"
    and "replaceHeic (photoName rt body photo) \<noteq> photoName rt body photo"
    and "endsWith (replaceHeic (photoName rt body photo)) ''.jpg''"
proof -
  let ?a = "assetId rt body" and ?e = "extname rt (originalname photo)"
  from assms have e: "isHeicName (?a @ ''_photo'' @ ?e)"
    by (simp only: photoName_def)
  have r: "replaceHeic (photoName rt body photo) =
             ?a @ ''_photo'' @ take (length ?e - 5) ?e @ ''.jpg''"
    using replaceHeic_photo [OF e] by (simp only: photoName_def)
  show "replaceHeic (photoName rt body photo) \<noteq> videoName rt body video"
    by (simp add: r videoName_def)
  show "replaceHeic (photoName rt body photo) \<noteq> metadataName rt body"
    by (simp add: r metadataName_def)
  have "length (replaceHeic (photoName rt body photo)) \<noteq> length (photoName rt body photo)"
    using heic_ext_long [OF e] unfolding r by (simp add: photoName_def)
  then show "replaceHeic (photoName rt body photo) \<noteq> photoName rt body photo" by auto
  have "endsWith ((?a @ ''_photo'' @ take (length ?e - 5) ?e) @ ''.jpg'') ''.jpg''"
    by (rule endsWith_append)
  then show "endsWith (replaceHeic (photoName rt body photo)) ''.jpg''"
    by (simp only: r append_assoc)
qed

lemma buildMetadata_id: "id' (buildMetadata rt body video p n v) = metadataId rt body"
  by (simp add: buildMetadata_def)

lemma convertStep_ok:
  assumes h: "isHeicName pn"
      and ne: "replaceHeic pn \<noteq> pn"
      and c: "heicConvert rt b = Some jpeg"
      and reg: "regularFiles files"
  shows "convertStep rt (putFile files pn (Blob b)) pn n =
           (replaceHeic pn, length jpeg,
            removeFile (putFile (putFile files pn (Blob b)) (replaceHeic pn) (Blob jpeg)) pn)"
  using h ne c
  by (simp add: convertStep_def convertHeicToJpeg_def map_of_putFile unlinkSync_def
        writeFileSync_regular regularFiles_putFile reg statSize_def map_of_removeFile)

lemma convertStep_failed:
  assumes h: "isHeicName pn"
      and c: "heicConvert rt b = None"
  shows "convertStep rt (putFile files pn (Blob b)) pn n =
           (pn, n, putFile files pn (Blob b))"
  using h c
  by (simp add: convertStep_def convertHeicToJpeg_def map_of_putFile)

text \<open>
  The run of the handler on a request inside the model whose two temporary files are
  there, into a gallery directory of regular files: after the photo step has left the
  gallery directory as \<open>files2\<close>, the video is moved in, the record is written, and
  the reply is 201.
\<close>

lemma upload_steps:
  assumes inside: "insideModel rt body photo video"
      and usable: "galleryUsable st (orElse (gallery_id body) ''default'')"
      and gtemp: "orElse (gallery_id body) ''default'' \<noteq> tempDir"
      and regular: "regularFiles (dirOf st (orElse (gallery_id body) ''default''))"
      and temp: "galleryNode st tempDir = Some (Dir temp)"
      and pfile: "map_of temp (path photo) = Some (Blob pb)"
      and vfile: "map_of temp (path video) = Some (Blob vb)"
      and pv: "path photo \<noteq> path video"
      and cs: "convertStep rt
                 (putFile (dirOf st (orElse (gallery_id body) ''default''))
                    (photoName rt body photo) (Blob pb))
                 (photoName rt body photo) (length pb) = (fpn, fps, files2)"
      and reg2: "regularFiles files2"
  shows "\<exists>final.
           upload rt st (Some (Some photo, Some video)) body =
             Done (Created (metadataId rt body) (orElse (gallery_id body) ''default'')
                     (''/files/'' @ orElse (gallery_id body) ''default'' @ ''/'' @ fpn)
                     (''/files/'' @ orElse (gallery_id body) ''default'' @ ''/''
                        @ videoName rt body video)
                     (''/files/'' @ orElse (gallery_id body) ''default'' @ ''/''
                        @ metadataName rt body),
                   Some final)
           \<and> dirOf (Some final) (orElse (gallery_id body) ''default'') =
               putFile (putFile files2 (videoName rt body video) (Blob vb))
                 (metadataName rt body)
                 (Json (buildMetadata rt body video fpn fps (videoName rt body video)))"
proof -
  let ?g = "orElse (gallery_id body) ''default''"
  let ?pn = "photoName rt body photo"
  let ?vn = "videoName rt body video"
  let ?mn = "metadataName rt body"
  let ?r0 = "mkdirGallery st ?g"
  let ?files1 = "putFile (dirOf st ?g) ?pn (Blob pb)"
  let ?temp1 = "removeFile temp (path photo)"
  define r1 where "r1 = setDir ?g ?files1 (setDir tempDir ?temp1 ?r0)"
  define r2 where "r2 = setDir ?g files2 r1"
  define files3 where "files3 = putFile files2 ?vn (Blob vb)"
  define r3 where "r3 = setDir ?g files3 (setDir tempDir (removeFile ?temp1 (path video)) r2)"
  define md where "md = buildMetadata rt body video fpn fps ?vn"
  have look_g: "lookupNode ?r0 ?g = Some (Dir (dirOf st ?g))"
    using usable by (rule lookupNode_mkdirGallery)
  have look_t: "lookupNode ?r0 tempDir = Some (Dir temp)"
    using temp by (rule lookupNode_mkdirGallery_other)
  have ren1: "renameSync ?r0 (tempDir, path photo) (?g, ?pn) = Done (Some r1)"
    unfolding r1_def by (rule renameSync_blob [OF look_t pfile gtemp look_g regular])
  have look_t0: "lookupNode (setDir tempDir ?temp1 ?r0) ?g = Some (Dir (dirOf st ?g))"
    using gtemp look_g by (simp add: lookupNode_setDir_other)
  have r1_g: "lookupNode r1 ?g = Some (Dir ?files1)"
    unfolding r1_def by (rule lookupNode_setDir [OF look_t0])
  have r1_t: "lookupNode r1 tempDir = Some (Dir ?temp1)"
    unfolding r1_def using gtemp look_t
    by (simp add: lookupNode_setDir_other lookupNode_setDir)
  have size0: "statSize rt ?files1 ?pn = Some (length pb)"
    by (simp add: statSize_def map_of_putFile)
  have r2_g: "lookupNode r2 ?g = Some (Dir files2)"
    unfolding r2_def by (rule lookupNode_setDir [OF r1_g])
  have r2_t: "lookupNode r2 tempDir = Some (Dir ?temp1)"
    unfolding r2_def using gtemp r1_t by (simp add: lookupNode_setDir_other)
  have v1: "map_of ?temp1 (path video) = Some (Blob vb)"
    using vfile pv by (simp add: map_of_removeFile)
  have ren2: "renameSync r2 (tempDir, path video) (?g, ?vn) = Done (Some r3)"
    unfolding r3_def files3_def by (rule renameSync_blob [OF r2_t v1 gtemp r2_g reg2])
  have r2_t': "lookupNode (setDir tempDir (removeFile ?temp1 (path video)) r2) ?g =
                 Some (Dir files2)"
    using gtemp r2_g by (simp add: lookupNode_setDir_other)
  have r3_g: "lookupNode r3 ?g = Some (Dir files3)"
    unfolding r3_def by (rule lookupNode_setDir [OF r2_t'])
  have reg3: "regularFiles files3"
    unfolding files3_def using reg2 by (simp add: regularFiles_putFile)
  have wr: "writeFileSync files3 ?mn (Json md) = Some (putFile files3 ?mn (Json md))"
    using reg3 by (rule writeFileSync_regular)
  have mid: "id' md = metadataId rt body"
    unfolding md_def by (rule buildMetadata_id)
  have up: "upload rt st (Some (Some photo, Some video)) body =
             Done (Created (metadataId rt body) ?g (''/files/'' @ ?g @ ''/'' @ fpn)
                     (''/files/'' @ ?g @ ''/'' @ ?vn) (''/files/'' @ ?g @ ''/'' @ ?mn),
                   Some (setDir ?g (putFile files3 ?mn (Json md)) r3))"
    using inside
    by (simp add: upload_def Let_def ren1 lookupDir_def r1_g size0 cs ren2 [unfolded r2_def]
          r3_g wr wr [unfolded md_def] md_def [symmetric] mid)
  have d: "dirOf (Some (setDir ?g (putFile files3 ?mn (Json md)) r3)) ?g =
             putFile files3 ?mn (Json md)"
    by (rule dirOf_setDir [OF r3_g])
  from up d show ?thesis unfolding files3_def md_def by blast
qed

text \<open>
  Claim C4. The handler tests the name the photo is stored under (asset prefix,
  \<^verbatim>\<open>_photo\<close>, extension of the original name): let it end in \<^verbatim>\<open>.heic\<close> in any letter
  case. Let the request be inside the model (its gallery id and file names are plain
  names), the gallery be another directory than \<^verbatim>\<open>.temp\<close> whose path is not taken by
  a plain file and which holds regular files only, and the two temporary files be there,
  the photo with the bytes \<open>pb\<close>. If the conversion of \<open>pb\<close> succeeds, the upload answers
  201, the gallery directory holds the converted bytes under the name with \<^verbatim>\<open>.jpg\<close> in
  place of the extension, no file is left under the HEIC name, and the persisted record
  names the JPEG file and has its length as \<open>photoSize\<close>. If the conversion throws, the
  upload still answers 201, the original bytes stay under the HEIC name, and the record
  names that file with its length.
\<close>

theorem heic_upload_converted:
  assumes heic: "isHeicName (photoName rt body photo)"
      and inside: "insideModel rt body photo video"
      and usable: "galleryUsable st (orElse (gallery_id body) ''default'')"
      and gtemp: "orElse (gallery_id body) ''default'' \<noteq> tempDir"
      and regular: "regularFiles (dirOf st (orElse (gallery_id body) ''default''))"
      and temp: "galleryNode st tempDir = Some (Dir temp)"
      and pfile: "map_of temp (path photo) = Some (Blob pb)"
      and vfile: "map_of temp (path video) = Some (Blob vb)"
      and pv: "path photo \<noteq> path video"
  shows "(\<forall>jpeg. heicConvert rt pb = Some jpeg \<longrightarrow>
            (\<exists>final.
               upload rt st (Some (Some photo, Some video)) body =
                 Done (Created (metadataId rt body) (orElse (gallery_id body) ''default'')
                         (''/files/'' @ orElse (gallery_id body) ''default'' @ ''/''
                            @ replaceHeic (photoName rt body photo))
                         (''/files/'' @ orElse (gallery_id body) ''default'' @ ''/''
                            @ videoName rt body video)
                         (''/files/'' @ orElse (gallery_id body) ''default'' @ ''/''
                            @ metadataName rt body),
                       Some final)
               \<and> endsWith (replaceHeic (photoName rt body photo)) ''.jpg''
               \<and> map_of (dirOf (Some final) (orElse (gallery_id body) ''default''))
                    (replaceHeic (photoName rt body photo)) = Some (Blob jpeg)
               \<and> \<not> existsSync (dirOf (Some final) (orElse (gallery_id body) ''default''))
                      (photoName rt body photo)
               \<and> (\<exists>m. map_of (dirOf (Some final) (orElse (gallery_id body) ''default''))
                          (metadataName rt body) = Some (Json m)
                       \<and> photoFile m = replaceHeic (photoName rt body photo)
                       \<and> photoSize m = length jpeg)))
       \<and> (heicConvert rt pb = None \<longrightarrow>
            (\<exists>final.
               upload rt st (Some (Some photo, Some video)) body =
                 Done (Created (metadataId rt body) (orElse (gallery_id body) ''default'')
                         (''/files/'' @ orElse (gallery_id body) ''default'' @ ''/''
                            @ photoName rt body photo)
                         (''/files/'' @ orElse (gallery_id body) ''default'' @ ''/''
                            @ videoName rt body video)
                         (''/files/'' @ orElse (gallery_id body) ''default'' @ ''/''
                            @ metadataName rt body),
                       Some final)
               \<and> map_of (dirOf (Some final) (orElse (gallery_id body) ''default''))
                    (photoName rt body photo) = Some (Blob pb)
               \<and> (\<exists>m. map_of (dirOf (Some final) (orElse (gallery_id body) ''default''))
                          (metadataName rt body) = Some (Json m)
                       \<and> photoFile m = photoName rt body photo
                       \<and> photoSize m = length pb)))"
proof (intro conjI allI impI)
  let ?g = "orElse (gallery_id body) ''default''"
  let ?pn = "photoName rt body photo"
  let ?vn = "videoName rt body video"
  let ?mn = "metadataName rt body"
  let ?files1 = "putFile (dirOf st ?g) ?pn (Blob pb)"
  note nd = photo_video_distinct [of rt body photo video] photo_metadata_distinct [of rt body photo]
    video_metadata_distinct [of rt body video]
    photo_video_distinct [of rt body photo video, symmetric]
    photo_metadata_distinct [of rt body photo, symmetric]
    video_metadata_distinct [of rt body video, symmetric]
  note jd = jpeg_name_distinct [OF heic]
  note jd' = jd(1-3) [symmetric]
  have reg1: "regularFiles ?files1"
    using regular by (simp add: regularFiles_putFile)
  {
    fix jpeg assume c: "heicConvert rt pb = Some jpeg"
    define files2 where
      "files2 = removeFile (putFile ?files1 (replaceHeic ?pn) (Blob jpeg)) ?pn"
    have cs: "convertStep rt ?files1 ?pn (length pb) = (replaceHeic ?pn, length jpeg, files2)"
      unfolding files2_def using heic jd(3) c regular by (rule convertStep_ok)
    have reg2: "regularFiles files2"
      unfolding files2_def using reg1 by (simp add: regularFiles_putFile regularFiles_removeFile)
    from upload_steps [OF inside usable gtemp regular temp pfile vfile pv cs reg2]
    obtain final where
      up: "upload rt st (Some (Some photo, Some video)) body =
             Done (Created (metadataId rt body) ?g
                     (''/files/'' @ ?g @ ''/'' @ replaceHeic ?pn)
                     (''/files/'' @ ?g @ ''/'' @ ?vn) (''/files/'' @ ?g @ ''/'' @ ?mn),
                   Some final)"
      and d: "dirOf (Some final) ?g =
                putFile (putFile files2 ?vn (Blob vb)) ?mn
                  (Json (buildMetadata rt body video (replaceHeic ?pn) (length jpeg) ?vn))"
      by blast
    have a1: "map_of (dirOf (Some final) ?g) (replaceHeic ?pn) = Some (Blob jpeg)"
      using nd jd jd' by (simp add: d files2_def map_of_putFile map_of_removeFile)
    have a2: "\<not> existsSync (dirOf (Some final) ?g) ?pn"
      using nd jd jd'
      by (simp add: d files2_def existsSync_map_of map_of_putFile map_of_removeFile)
    have a3: "\<exists>m. map_of (dirOf (Some final) ?g) ?mn = Some (Json m)
                \<and> photoFile m = replaceHeic ?pn \<and> photoSize m = length jpeg"
      by (simp add: d map_of_putFile buildMetadata_def)
    show "\<exists>final.
               upload rt st (Some (Some photo, Some video)) body =
                 Done (Created (metadataId rt body) (orElse (gallery_id body) ''default'')
                         (''/files/'' @ orElse (gallery_id body) ''default'' @ ''/''
                            @ replaceHeic (photoName rt body photo))
                         (''/files/'' @ orElse (gallery_id body) ''default'' @ ''/''
                            @ videoName rt body video)
                         (''/files/'' @ orElse (gallery_id body) ''default'' @ ''/''
                            @ metadataName rt body),
                       Some final)
               \<and> endsWith (replaceHeic (photoName rt body photo)) ''.jpg''
               \<and> map_of (dirOf (Some final) (orElse (gallery_id body) ''default''))
                    (replaceHeic (photoName rt body photo)) = Some (Blob jpeg)
               \<and> \<not> existsSync (dirOf (Some final) (orElse (gallery_id body) ''default''))
                      (photoName rt body photo)
               \<and> (\<exists>m. map_of (dirOf (Some final) (orElse (gallery_id body) ''default''))
                          (metadataName rt body) = Some (Json m)
                       \<and> photoFile m = replaceHeic (photoName rt body photo)
                       \<and> photoSize m = length jpeg)"
      using up jd(4) a1 a2 a3 by blast
  }
  {
    assume c: "heicConvert rt pb = None"
    have cs: "convertStep rt ?files1 ?pn (length pb) = (?pn, length pb, ?files1)"
      using heic c by (rule convertStep_failed)
    from upload_steps [OF inside usable gtemp regular temp pfile vfile pv cs reg1]
    obtain final where
      up: "upload rt st (Some (Some photo, Some video)) body =
             Done (Created (metadataId rt body) ?g
                     (''/files/'' @ ?g @ ''/'' @ ?pn)
                     (''/files/'' @ ?g @ ''/'' @ ?vn) (''/files/'' @ ?g @ ''/'' @ ?mn),
                   Some final)"
      and d: "dirOf (Some final) ?g =
                putFile (putFile ?files1 ?vn (Blob vb)) ?mn
                  (Json (buildMetadata rt body video ?pn (length pb) ?vn))"
      by blast
    have a1: "map_of (dirOf (Some final) ?g) ?pn = Some (Blob pb)"
      using nd by (simp add: d map_of_putFile)
    have a3: "\<exists>m. map_of (dirOf (Some final) ?g) ?mn = Some (Json m)
                \<and> photoFile m = ?pn \<and> photoSize m = length pb"
      by (simp add: d map_of_putFile buildMetadata_def)
    show "\<exists>final.
               upload rt st (Some (Some photo, Some video)) body =
                 Done (Created (metadataId rt body) (orElse (gallery_id body) ''default'')
                         (''/files/'' @ orElse (gallery_id body) ''default'' @ ''/''
                            @ photoName rt body photo)
                         (''/files/'' @ orElse (gallery_id body) ''default'' @ ''/''
                            @ videoName rt body video)
                         (''/files/'' @ orElse (gallery_id body) ''default'' @ ''/''
                            @ metadataName rt body),
                       Some final)
               \<and> map_of (dirOf (Some final) (orElse (gallery_id body) ''default''))
                    (photoName rt body photo) = Some (Blob pb)
               \<and> (\<exists>m. map_of (dirOf (Some final) (orElse (gallery_id body) ''default''))
                          (metadataName rt body) = Some (Json m)
                       \<and> photoFile m = photoName rt body photo
                       \<and> photoSize m = length pb)"
      using up a1 a3 by blast
  }
qed

text \<open>
  The three file names of an upload start with the asset prefix. With an id in the
  request the prefix is the first eight characters of the record's id; without one the
  prefix and the record's id come from two different calls of \<^verbatim>\<open>uuidv4\<close>.
\<close>

lemma names_start_with_assetId:
  "startsWith (photoName rt body photo) (assetId rt body)
   \<and> startsWith (videoName rt body video) (assetId rt body)
   \<and> startsWith (metadataName rt body) (assetId rt body)"
  by (simp add: startsWith_def photoName_def videoName_def metadataName_def)

lemma client_id_prefixes_names:
  assumes "truthy (req_id body)"
  shows "assetId rt body = substring8 (metadataId rt body)"
  using assms
  by (cases "req_id body") (auto simp: assetId_def metadataId_def substring8_def)

lemma generated_ids:
  assumes "\<not> truthy (req_id body)"
  shows "assetId rt body = substring8 (uuidv4 rt 0) \<and> metadataId rt body = uuidv4 rt 1"
  using assms
  by (cases "req_id body") (auto simp: assetId_def metadataId_def substring8_def)

lemmas fs_defs = mkdirGallery_def renameSync_def lookupDir_def writeFileSync_def putFile_def
  existsSync_def removeFile_def unlinkSync_def statSize_def convertStep_def
  convertHeicToJpeg_def replaceHeic_def tempDir_def stagedRoot_def stagedFiles_def

text \<open>
  Claim C3 on an upload without an id. The handler calls \<^verbatim>\<open>uuidv4()\<close> once for the
  file prefix and a second time for the id of the record: with two different tokens the
  three files are stored under the first eight characters of the first token, and the
  record carries the second token, whose first eight characters prefix none of them.
\<close>

theorem upload_generated_id_mismatch:
  "upload sampleRuntime (Some stagedRoot) (Some (Some jpegPhoto, Some movVideo)) noFields =
      Done (Created ''6fa459ea-ee8a-4ca4-894e-db77e160355e'' ''default''
              ''/files/default/1b4e28ba_photo.JPG''
              ''/files/default/1b4e28ba_video.MOV''
              ''/files/default/1b4e28ba_metadata.json'',
            Some [(''.temp'', Dir [(''t1_photo.HEIC'', Blob ''heic-bytes''),
                                   (''t2_photo.heic'', Blob ''not-a-heic'')]),
                  (''trip'', Dir tripDir),
                  (''notes.txt'', Plain),
                  (''default'',
                   Dir [(''1b4e28ba_photo.JPG'', Blob ''jpg''),
                        (''1b4e28ba_video.MOV'', Blob ''movie''),
                        (''1b4e28ba_metadata.json'',
                         Json (buildMetadata sampleRuntime noFields movVideo
                                 ''1b4e28ba_photo.JPG'' 3 ''1b4e28ba_video.MOV''))])])
   \<and> id' (buildMetadata sampleRuntime noFields movVideo
             ''1b4e28ba_photo.JPG'' 3 ''1b4e28ba_video.MOV'') =
        ''6fa459ea-ee8a-4ca4-894e-db77e160355e''
   \<and> \<not> startsWith ''1b4e28ba_photo.JPG'' (substring8 ''6fa459ea-ee8a-4ca4-894e-db77e160355e'')
   \<and> \<not> startsWith ''1b4e28ba_video.MOV'' (substring8 ''6fa459ea-ee8a-4ca4-894e-db77e160355e'')
   \<and> \<not> startsWith ''1b4e28ba_metadata.json'' (substring8 ''6fa459ea-ee8a-4ca4-894e-db77e160355e'')"
proof -
  have n: "photoName sampleRuntime noFields jpegPhoto = ''1b4e28ba_photo.JPG''"
      "videoName sampleRuntime noFields movVideo = ''1b4e28ba_video.MOV''"
      "metadataName sampleRuntime noFields = ''1b4e28ba_metadata.json''"
    by (simp_all add: photoName_def videoName_def metadataName_def assetId_def noFields_def
          sampleRuntime_def jpegPhoto_def movVideo_def posixExtname_def substring8_def)
  have i: "id' (buildMetadata sampleRuntime noFields movVideo p k v) =
        ''6fa459ea-ee8a-4ca4-894e-db77e160355e''" for p k v
    by (simp add: buildMetadata_id metadataId_def noFields_def sampleRuntime_def)
  have b: "path jpegPhoto = ''t3_photo.JPG''" "path movVideo = ''t4_video.MOV''"
      "orElse (gallery_id noFields) ''default'' = ''default''"
    by (simp_all add: jpegPhoto_def movVideo_def noFields_def)
  have g: "plainName (orElse (gallery_id noFields) ''default'')"
    by (simp add: noFields_def plainName_def)
  have ins: "insideModel sampleRuntime noFields jpegPhoto movVideo"
    by (simp add: insideModel_def n b g plainName_def)
  have u: "upload sampleRuntime (Some stagedRoot) (Some (Some jpegPhoto, Some movVideo)) noFields =
      Done (Created ''6fa459ea-ee8a-4ca4-894e-db77e160355e'' ''default''
              ''/files/default/1b4e28ba_photo.JPG''
              ''/files/default/1b4e28ba_video.MOV''
              ''/files/default/1b4e28ba_metadata.json'',
            Some [(''.temp'', Dir [(''t1_photo.HEIC'', Blob ''heic-bytes''),
                                   (''t2_photo.heic'', Blob ''not-a-heic'')]),
                  (''trip'', Dir tripDir),
                  (''notes.txt'', Plain),
                  (''default'',
                   Dir [(''1b4e28ba_photo.JPG'', Blob ''jpg''),
                        (''1b4e28ba_video.MOV'', Blob ''movie''),
                        (''1b4e28ba_metadata.json'',
                         Json (buildMetadata sampleRuntime noFields movVideo
                                 ''1b4e28ba_photo.JPG'' 3 ''1b4e28ba_video.MOV''))])])"
    by (simp add: upload_def Let_def ins n i b fs_defs str_defs numeral_3_eq_3)
  show ?thesis
    by (simp add: u i) (simp add: startsWith_def substring8_def)
qed

text \<open>
  \<^verbatim>\<open>IMG_0001.HEIC\<close> is converted and stored as \<^verbatim>\<open>ABCDEFGH_photo.jpg\<close>; the bytes of
  \<^verbatim>\<open>IMG_0002.heic\<close> make the converter throw and stay as \<^verbatim>\<open>abc_photo.heic\<close>.
\<close>

theorem heic_upload_converted_witness:
  "isHeicName
      (photoName sampleRuntime (noFields\<lparr>req_id := Some ''ABCDEFGH-1234'', gallery_id := Some ''trip''\<rparr>)
         heicPhoto)
   \<and> insideModel sampleRuntime
        (noFields\<lparr>req_id := Some ''ABCDEFGH-1234'', gallery_id := Some ''trip''\<rparr>)
        heicPhoto movVideo
   \<and> galleryUsable (Some stagedRoot) ''trip'' \<and> ''trip'' \<noteq> tempDir
   \<and> regularFiles (dirOf (Some stagedRoot) ''trip'')
   \<and> galleryNode (Some stagedRoot) tempDir = Some (Dir stagedFiles)
   \<and> map_of stagedFiles (path heicPhoto) = Some (Blob ''heic-bytes'')
   \<and> map_of stagedFiles (path brokenPhoto) = Some (Blob ''not-a-heic'')
   \<and> map_of stagedFiles (path movVideo) = Some (Blob ''movie'')
   \<and> path heicPhoto \<noteq> path movVideo \<and> path brokenPhoto \<noteq> path movVideo
   \<and> heicConvert sampleRuntime ''heic-bytes'' = Some ''jpeg-bytes-92''
   \<and> upload sampleRuntime (Some stagedRoot) (Some (Some heicPhoto, Some movVideo))
        (noFields\<lparr>req_id := Some ''ABCDEFGH-1234'', gallery_id := Some ''trip''\<rparr>) =
       Done (Created ''ABCDEFGH-1234'' ''trip'' ''/files/trip/ABCDEFGH_photo.jpg''
               ''/files/trip/ABCDEFGH_video.MOV'' ''/files/trip/ABCDEFGH_metadata.json'',
             Some [(''.temp'', Dir [(''t2_photo.heic'', Blob ''not-a-heic''),
                                    (''t3_photo.JPG'', Blob ''jpg'')]),
                   (''trip'',
                    Dir (tripDir @
                         [(''ABCDEFGH_photo.jpg'', Blob ''jpeg-bytes-92''),
                          (''ABCDEFGH_video.MOV'', Blob ''movie''),
                          (''ABCDEFGH_metadata.json'',
                           Json (buildMetadata sampleRuntime
                                   (noFields\<lparr>req_id := Some ''ABCDEFGH-1234'',
                                              gallery_id := Some ''trip''\<rparr>)
                                   movVideo ''ABCDEFGH_photo.jpg'' 13 ''ABCDEFGH_video.MOV''))])),
                   (''notes.txt'', Plain)])
   \<and> isHeicName (photoName sampleRuntime (noFields\<lparr>req_id := Some ''abc''\<rparr>) brokenPhoto)
   \<and> insideModel sampleRuntime (noFields\<lparr>req_id := Some ''abc''\<rparr>) brokenPhoto movVideo
   \<and> galleryUsable (Some stagedRoot) ''default'' \<and> ''default'' \<noteq> tempDir
   \<and> regularFiles (dirOf (Some stagedRoot) ''default'')
   \<and> heicConvert sampleRuntime ''not-a-heic'' = None
   \<and> upload sampleRuntime (Some stagedRoot) (Some (Some brokenPhoto, Some movVideo))
        (noFields\<lparr>req_id := Some ''abc''\<rparr>) =
       Done (Created ''abc'' ''default'' ''/files/default/abc_photo.heic''
               ''/files/default/abc_video.MOV'' ''/files/default/abc_metadata.json'',
             Some [(''.temp'', Dir [(''t1_photo.HEIC'', Blob ''heic-bytes''),
                                    (''t3_photo.JPG'', Blob ''jpg'')]),
                   (''trip'', Dir tripDir),
                   (''notes.txt'', Plain),
                   (''default'',
                    Dir [(''abc_photo.heic'', Blob ''not-a-heic''),
                         (''abc_video.MOV'', Blob ''movie''),
                         (''abc_metadata.json'',
                          Json (buildMetadata sampleRuntime (noFields\<lparr>req_id := Some ''abc''\<rparr>)
                                  movVideo ''abc_photo.heic'' 10 ''abc_video.MOV''))])])"
proof -
  let ?b1 = "noFields\<lparr>req_id := Some ''ABCDEFGH-1234'', gallery_id := Some ''trip''\<rparr>"
  let ?b2 = "noFields\<lparr>req_id := Some ''abc''\<rparr>"
  let ?md1 = "buildMetadata sampleRuntime ?b1 movVideo ''ABCDEFGH_photo.jpg'' 13 ''ABCDEFGH_video.MOV''"
  let ?md2 = "buildMetadata sampleRuntime ?b2 movVideo ''abc_photo.heic'' 10 ''abc_video.MOV''"
  let ?x1 = "[(''.temp'', Dir [(''t2_photo.heic'', Blob ''not-a-heic''),
                               (''t3_photo.JPG'', Blob ''jpg'')]),
              (''trip'',
               Dir (tripDir @
                    [(''ABCDEFGH_photo.jpg'', Blob ''jpeg-bytes-92''),
                     (''ABCDEFGH_video.MOV'', Blob ''movie''),
                     (''ABCDEFGH_metadata.json'', Json ?md1)])),
              (''notes.txt'', Plain)]"
  let ?x2 = "[(''.temp'', Dir [(''t1_photo.HEIC'', Blob ''heic-bytes''),
                               (''t3_photo.JPG'', Blob ''jpg'')]),
              (''trip'', Dir tripDir),
              (''notes.txt'', Plain),
              (''default'',
               Dir [(''abc_photo.heic'', Blob ''not-a-heic''),
                    (''abc_video.MOV'', Blob ''movie''),
                    (''abc_metadata.json'', Json ?md2)])]"
  have n1: "photoName sampleRuntime ?b1 heicPhoto = ''ABCDEFGH_photo.HEIC''"
      "videoName sampleRuntime ?b1 movVideo = ''ABCDEFGH_video.MOV''"
      "metadataName sampleRuntime ?b1 = ''ABCDEFGH_metadata.json''"
      "metadataId sampleRuntime ?b1 = ''ABCDEFGH-1234''"
      "orElse (gallery_id ?b1) ''default'' = ''trip''"
    by (simp_all add: photoName_def videoName_def metadataName_def assetId_def metadataId_def
          noFields_def sampleRuntime_def heicPhoto_def movVideo_def posixExtname_def substring8_def)
  have n2: "photoName sampleRuntime ?b2 brokenPhoto = ''abc_photo.heic''"
      "videoName sampleRuntime ?b2 movVideo = ''abc_video.MOV''"
      "metadataName sampleRuntime ?b2 = ''abc_metadata.json''"
      "metadataId sampleRuntime ?b2 = ''abc''"
      "orElse (gallery_id ?b2) ''default'' = ''default''"
    by (simp_all add: photoName_def videoName_def metadataName_def assetId_def metadataId_def
          noFields_def sampleRuntime_def brokenPhoto_def movVideo_def posixExtname_def substring8_def)
  have d0: "orElse (gallery_id noFields) ''default'' = ''default''"
    by (simp add: noFields_def)
  have pa: "path heicPhoto = ''t1_photo.HEIC''" "path brokenPhoto = ''t2_photo.heic''"
      "path movVideo = ''t4_video.MOV''"
    by (simp_all add: heicPhoto_def brokenPhoto_def movVideo_def)
  have r1: "replaceHeic ''ABCDEFGH_photo.HEIC'' = ''ABCDEFGH_photo.jpg''"
    by (simp add: replaceHeic_def str_defs)
  have h1: "isHeicName (photoName sampleRuntime ?b1 heicPhoto)"
    by (simp add: n1 str_defs)
  have h2: "isHeicName (photoName sampleRuntime ?b2 brokenPhoto)"
    by (simp add: n2 str_defs)
  have i1: "insideModel sampleRuntime ?b1 heicPhoto movVideo"
    by (simp add: insideModel_def n1 pa plainName_def)
  have i2: "insideModel sampleRuntime ?b2 brokenPhoto movVideo"
    by (simp add: insideModel_def n2 d0 pa plainName_def)
  have u1: "galleryUsable (Some stagedRoot) (orElse (gallery_id ?b1) ''default'')"
    by (simp add: n1 galleryUsable_def galleryNode_def stagedRoot_def)
  have u2: "galleryUsable (Some stagedRoot) (orElse (gallery_id ?b2) ''default'')"
    by (simp add: n2 d0 galleryUsable_def galleryNode_def stagedRoot_def)
  have g1: "orElse (gallery_id ?b1) ''default'' \<noteq> tempDir"
    by (simp add: n1 tempDir_def)
  have g2: "orElse (gallery_id ?b2) ''default'' \<noteq> tempDir"
    by (simp add: n2 d0 tempDir_def)
  have d1: "dirOf (Some stagedRoot) ''trip'' = tripDir"
    by (simp add: dirOf_def galleryNode_def stagedRoot_def)
  have d2: "dirOf (Some stagedRoot) ''default'' = []"
    by (simp add: dirOf_def galleryNode_def stagedRoot_def)
  have rg1: "regularFiles (dirOf (Some stagedRoot) (orElse (gallery_id ?b1) ''default''))"
    by (simp add: n1 d1 regularFiles_def tripDir_def)
  have rg2: "regularFiles (dirOf (Some stagedRoot) (orElse (gallery_id ?b2) ''default''))"
    by (simp add: n2 d0 d2 regularFiles_def)
  have t: "galleryNode (Some stagedRoot) tempDir = Some (Dir stagedFiles)"
    by (simp add: galleryNode_def stagedRoot_def tempDir_def)
  have p1: "map_of stagedFiles (path heicPhoto) = Some (Blob ''heic-bytes'')"
    by (simp add: pa stagedFiles_def)
  have p2: "map_of stagedFiles (path brokenPhoto) = Some (Blob ''not-a-heic'')"
    by (simp add: pa stagedFiles_def)
  have v: "map_of stagedFiles (path movVideo) = Some (Blob ''movie'')"
    by (simp add: pa stagedFiles_def)
  have pv1: "path heicPhoto \<noteq> path movVideo" and pv2: "path brokenPhoto \<noteq> path movVideo"
    by (simp_all add: pa)
  have c1: "heicConvert sampleRuntime ''heic-bytes'' = Some ''jpeg-bytes-92''"
    by (simp add: sampleRuntime_def)
  have c2: "heicConvert sampleRuntime ''not-a-heic'' = None"
    by (simp add: sampleRuntime_def)
  note t1 = heic_upload_converted [OF h1 i1 u1 g1 rg1 t p1 v pv1, THEN conjunct1, rule_format, OF c1]
  note t2 = heic_upload_converted [OF h2 i2 u2 g2 rg2 t p2 v pv2, THEN conjunct2, rule_format, OF c2]
  have e1: "upload sampleRuntime (Some stagedRoot) (Some (Some heicPhoto, Some movVideo)) ?b1 =
              Done (Created ''ABCDEFGH-1234'' ''trip'' ''/files/trip/ABCDEFGH_photo.jpg''
                      ''/files/trip/ABCDEFGH_video.MOV'' ''/files/trip/ABCDEFGH_metadata.json'',
                    Some ?x1)"
    by (simp add: upload_def Let_def i1 n1 pa fs_defs str_defs tripDir_def c1
          buildMetadata_id eval_nat_numeral)
  have e2: "upload sampleRuntime (Some stagedRoot) (Some (Some brokenPhoto, Some movVideo)) ?b2 =
              Done (Created ''abc'' ''default'' ''/files/default/abc_photo.heic''
                      ''/files/default/abc_video.MOV'' ''/files/default/abc_metadata.json'',
                    Some ?x2)"
    by (simp add: upload_def Let_def i2 n2 d0 pa fs_defs str_defs c2
          buildMetadata_id eval_nat_numeral)
  from t1 obtain f1 where
    f1: "upload sampleRuntime (Some stagedRoot) (Some (Some heicPhoto, Some movVideo)) ?b1 =
           Done (Created ''ABCDEFGH-1234'' ''trip'' ''/files/trip/ABCDEFGH_photo.jpg''
                   ''/files/trip/ABCDEFGH_video.MOV'' ''/files/trip/ABCDEFGH_metadata.json'',
                 Some f1)"
    by (auto simp: n1 r1)
  from t2 obtain f2 where
    f2: "upload sampleRuntime (Some stagedRoot) (Some (Some brokenPhoto, Some movVideo)) ?b2 =
           Done (Created ''abc'' ''default'' ''/files/default/abc_photo.heic''
                   ''/files/default/abc_video.MOV'' ''/files/default/abc_metadata.json'',
                 Some f2)"
    by (auto simp: n2 d0)
  from f1 e1 have x1: "f1 = ?x1" by simp
  from f2 e2 have x2: "f2 = ?x2" by simp
  from h1 h2 i1 i2 u1 u2 g1 g2 rg1 rg2 t p1 p2 v pv1 pv2 c1 c2 f1 f2 show ?thesis
    unfolding x1 x2 by (simp add: n1 n2 d0)
qed

end
